theory Spec2Isabelle
  imports Complex_Main "HOL-Library.Sublist"
begin

section \<open>Strings\<close>

text \<open>
  Python strings are modelled as \<^typ>\<open>string\<close>: one \<^typ>\<open>char\<close> stands for one code
  point, so the model covers the code points below 256 (Latin-1). The character
  classes below are the ones the Python runtime uses on that range.
\<close>

definition whitespace :: "char list" where
  "whitespace = [CHR 0x09, CHR 0x0A, CHR 0x0B, CHR 0x0C, CHR 0x0D,
                 CHR 0x1C, CHR 0x1D, CHR 0x1E, CHR 0x1F, CHR 0x20, CHR 0x85, CHR 0xA0]"

definition is_space :: "char \<Rightarrow> bool" where
  "is_space c = (c \<in> set whitespace)"

text \<open>\<^verbatim>\<open>str.strip()\<close>: leading and trailing whitespace removed.\<close>

definition strip :: "string \<Rightarrow> string" where
  "strip s = rev (dropWhile is_space (rev (dropWhile is_space s)))"

definition digits :: "char list" where
  "digits = ''0123456789''"

definition is_digit :: "char \<Rightarrow> bool" where
  "is_digit c = (c \<in> set digits)"

definition ascii_upper :: "char list" where
  "ascii_upper = ''ABCDEFGHIJKLMNOPQRSTUVWXYZ''"

definition ascii_lower :: "char list" where
  "ascii_lower = ''abcdefghijklmnopqrstuvwxyz''"

definition latin_upper :: "char list" where
  "latin_upper = [CHR 0xC0, CHR 0xC1, CHR 0xC2, CHR 0xC3, CHR 0xC4, CHR 0xC5, CHR 0xC6, CHR 0xC7,
                  CHR 0xC8, CHR 0xC9, CHR 0xCA, CHR 0xCB, CHR 0xCC, CHR 0xCD, CHR 0xCE, CHR 0xCF,
                  CHR 0xD0, CHR 0xD1, CHR 0xD2, CHR 0xD3, CHR 0xD4, CHR 0xD5, CHR 0xD6,
                  CHR 0xD8, CHR 0xD9, CHR 0xDA, CHR 0xDB, CHR 0xDC, CHR 0xDD, CHR 0xDE]"

definition latin_lower :: "char list" where
  "latin_lower = [CHR 0xE0, CHR 0xE1, CHR 0xE2, CHR 0xE3, CHR 0xE4, CHR 0xE5, CHR 0xE6, CHR 0xE7,
                  CHR 0xE8, CHR 0xE9, CHR 0xEA, CHR 0xEB, CHR 0xEC, CHR 0xED, CHR 0xEE, CHR 0xEF,
                  CHR 0xF0, CHR 0xF1, CHR 0xF2, CHR 0xF3, CHR 0xF4, CHR 0xF5, CHR 0xF6,
                  CHR 0xF8, CHR 0xF9, CHR 0xFA, CHR 0xFB, CHR 0xFC, CHR 0xFD, CHR 0xFE]"

text \<open>\<^verbatim>\<open>str.lower()\<close>, character by character.\<close>

definition lower_char :: "char \<Rightarrow> char" where
  "lower_char c =
     (case map_of (zip (ascii_upper @ latin_upper) (ascii_lower @ latin_lower)) c of
        Some d \<Rightarrow> d
      | None \<Rightarrow> c)"

definition lower :: "string \<Rightarrow> string" where
  "lower s = map lower_char s"

text \<open>
  \<^verbatim>\<open>str.upper()\<close>. The sharp s (0xDF) becomes two letters. The upper-case forms of
  0xB5 and 0xFF lie outside Latin-1; they are left in place here, which the only
  caller (\<open>clean_vin\<close>) cannot tell apart, since it deletes every character
  outside A-Z and 0-9 afterwards.
\<close>

definition upper_char :: "char \<Rightarrow> string" where
  "upper_char c =
     (if c = CHR 0xDF then ''SS''
      else case map_of (zip (ascii_lower @ latin_lower) (ascii_upper @ latin_upper)) c of
             Some d \<Rightarrow> [d]
           | None \<Rightarrow> [c])"

definition upper :: "string \<Rightarrow> string" where
  "upper s = concat (map upper_char s)"

text \<open>\<^verbatim>\<open>sub in s\<close> for strings.\<close>

fun contains :: "string \<Rightarrow> string \<Rightarrow> bool" where
  "contains sub [] = (sub = [])"
| "contains sub (c # cs) = (prefix sub (c # cs) \<or> contains sub cs)"

text \<open>\<^verbatim>\<open>str(n)\<close> for a non-negative integer.\<close>

fun str_nat :: "nat \<Rightarrow> string" where
  "str_nat n = (if n < 10 then [digits ! n] else str_nat (n div 10) @ [digits ! (n mod 10)])"

section \<open>The job and the registry (app.py)\<close>

record progress =
  current_competitor :: string
  total_competitors :: nat
  completed_competitors :: nat
  current_vdp :: nat
  total_vdps :: nat
  processed_vdps :: nat

text \<open>One row of \<open>job.results\<close>: the dictionary built in \<open>run_analysis\<close>.\<close>

record result_row =
  r_competitor :: string
  r_url :: string
  r_vin :: string
  r_year :: string
  r_make :: string
  r_model :: string
  r_trim :: string
  r_msrp :: string
  r_sale_price :: string
  r_date_scraped :: string

text \<open>\<open>class AnalysisJob\<close>; \<open>csv_path\<close> is \<open>None\<close> until the export has run.\<close>

record job =
  job_id :: string
  sitemap_urls :: "string list"
  openai_api_key :: string
  status :: string
  progress :: progress
  results :: "result_row list"
  errors :: "string list"
  completed :: bool
  csv_path :: "string option"

definition new_job :: "string \<Rightarrow> string list \<Rightarrow> string \<Rightarrow> job" where
  "new_job jid urls key =
     \<lparr> job_id = jid, sitemap_urls = urls, openai_api_key = key,
       status = ''starting'',
       progress = \<lparr> current_competitor = '''', total_competitors = length urls,
                    completed_competitors = 0, current_vdp = 0, total_vdps = 0,
                    processed_vdps = 0 \<rparr>,
       results = [], errors = [], completed = False, csv_path = None \<rparr>"

definition add_result :: "result_row \<Rightarrow> job \<Rightarrow> job" where
  "add_result r j = j\<lparr>results := results j @ [r]\<rparr>"

definition add_error :: "string \<Rightarrow> job \<Rightarrow> job" where
  "add_error e j = j\<lparr>errors := errors j @ [e]\<rparr>"

text \<open>The global dictionary \<open>analysis_results\<close>.\<close>

type_synonym registry = "string \<rightharpoonup> job"

subsection \<open>The body of a submission\<close>

text \<open>
  The JSON body of the request, read with \<open>data.get(key, '')\<close>; its values are
  strings.
\<close>

type_synonym request_data = "string \<rightharpoonup> string"

datatype submit_response =
  Bad_Request string
| Started string

definition get_field :: "request_data \<Rightarrow> string \<Rightarrow> string" where
  "get_field data k = (case data k of None \<Rightarrow> '''' | Some v \<Rightarrow> strip v)"

definition submitted_urls :: "request_data \<Rightarrow> string list" where
  "submitted_urls data =
     filter (\<lambda>u. u \<noteq> [])
       [get_field data ''gunn_nissan_url'', get_field data ''ingram_park_url'',
        get_field data ''boerne_url'', get_field data ''champion_nb_url'']"

subsection \<open>Status query\<close>

record status_body =
  sb_job_id :: string
  sb_status :: string
  sb_progress :: progress
  sb_completed :: bool
  sb_total_results :: nat
  sb_total_errors :: nat
  sb_errors :: "string list"

datatype status_response =
  Not_Found
| Status_Ok status_body

text \<open>\<open>xs[-10:]\<close>: the last ten elements, or all of them when there are fewer.\<close>

definition last10 :: "'a list \<Rightarrow> 'a list" where
  "last10 xs = drop (length xs - 10) xs"

definition job_status :: "registry \<Rightarrow> string \<Rightarrow> status_response" where
  "job_status reg jid =
     (case reg jid of
        None \<Rightarrow> Not_Found
      | Some j \<Rightarrow>
          Status_Ok \<lparr> sb_job_id = jid, sb_status = status j, sb_progress = progress j,
                      sb_completed = completed j, sb_total_results = length (results j),
                      sb_total_errors = length (errors j), sb_errors = last10 (errors j) \<rparr>)"

section \<open>The vehicle-data extractor (ai_extractor.py)\<close>

text \<open>Exceptions are values; \<open>Other\<close> carries the text of \<open>str(e)\<close>.\<close>

datatype py_exn =
  AttributeError
| JSONDecodeError
| UnboundLocalError
| Other string

datatype pyfloat = Finite rat | Inf | NegInf | NaN

text \<open>A value returned by \<open>json.loads\<close>; an object is the list of its items.\<close>

datatype json =
  JNull
| JBool bool
| JInt int
| JFloat pyfloat
| JString string
| JArray "json list"
| JObject "(string \<times> json) list"

datatype loads_result =
  Loaded json
| Decode_Error
| Loads_Raises py_exn

text \<open>
  What the chat-completion request gives: the text of
  \<open>response.choices[0].message.content\<close>, or the exception raised by the request or
  by reading that text.
\<close>

datatype upstream =
  Api_Content string
| Api_Raises py_exn

record prompt =
  p_url :: string
  p_page_title :: string
  p_html :: string

record vehicle_data =
  v_vin :: string
  v_year :: string
  v_make :: string
  v_model :: string
  v_trim :: string
  v_msrp :: string
  v_sale_price :: string

record fetched_page =
  f_html_content :: string
  f_page_title :: "string option"

record xml_root =
  ns_locs :: "string option list"
  plain_locs :: "string option list"

text \<open>
  The collaborators outside the repository, as functions. Those that talk to the
  network or read the clock take the state of the outside world \<open>'w\<close> and return the
  new one.
  \<^item> \<open>chat key p\<close>: \<open>client.chat.completions.create\<close> with the prompt built from \<open>p\<close>;
  \<^item> \<open>json_loads\<close>: \<open>json.loads\<close>;
  \<^item> \<open>format_price s\<close>: \<open>float(s)\<close> and \<open>f"{x:.2f}"\<close> when that succeeds with \<open>x > 0\<close>,
    \<open>None\<close> otherwise (lines 140-145 of ai_extractor.py);
  \<^item> \<open>py_repr\<close>: \<open>str\<close> of a float, a list or a dictionary;
  \<^item> \<open>netloc\<close>: \<open>urlparse(url).netloc\<close>, or the text of the \<open>ValueError\<close>;
  \<^item> \<open>get_sitemap\<close>: lines 53-65 of scraper.py, the request and the XML parser: the
    texts of the \<open>loc\<close> elements found with and without the namespace, or \<open>str(e)\<close>;
  \<^item> \<open>get_vdp\<close>: lines 125-154 and 162 of scraper.py, the request and the HTML
    heuristics, or \<open>str(e)\<close>;
  \<^item> \<open>client_init key\<close>: the text of the exception of \<open>OpenAI(api_key=key)\<close>, if any;
  \<^item> \<open>now\<close>: \<open>datetime.now().strftime(...)\<close>;
  \<^item> \<open>export_io path\<close>: the text of the exception of \<open>os.makedirs\<close>, \<open>open\<close> or the
    writes in \<open>generate_csv\<close>, if any;
  \<^item> \<open>csv_row\<close>: one line as \<open>csv.DictWriter\<close> writes it;
  \<^item> \<open>exn_text\<close>: \<open>str(e)\<close>;
  \<^item> \<open>vdp_limit\<close>: the configuration constant \<open>VDP_LIMIT\<close>;
  \<^item> \<open>cwd\<close>: the working directory of the process, against which \<open>open\<close> resolves a
    relative path;
  \<^item> \<open>root_path\<close>: \<open>app.root_path\<close>, the directory of app.py, against which Flask's
    \<open>send_file\<close> resolves a relative path.
\<close>

record 'w env =
  chat :: "string \<Rightarrow> prompt \<Rightarrow> 'w \<Rightarrow> upstream \<times> 'w"
  json_loads :: "string \<Rightarrow> loads_result"
  format_price :: "string \<Rightarrow> string option"
  py_repr :: "json \<Rightarrow> string"
  netloc :: "string \<Rightarrow> string + string"
  get_sitemap :: "string \<Rightarrow> 'w \<Rightarrow> (string + xml_root) \<times> 'w"
  get_vdp :: "string \<Rightarrow> 'w \<Rightarrow> (string + fetched_page) \<times> 'w"
  client_init :: "string \<Rightarrow> string option"
  now :: "'w \<Rightarrow> string \<times> 'w"
  export_io :: "string \<Rightarrow> string option"
  csv_row :: "string list \<Rightarrow> string"
  exn_text :: "py_exn \<Rightarrow> string"
  vdp_limit :: int
  cwd :: string
  root_path :: string

definition not_available :: string where
  "not_available = ''Not Available''"

text \<open>The dictionary returned by the generic handler and the seed of the fallback.\<close>

definition default_data :: vehicle_data where
  "default_data =
     \<lparr> v_vin = not_available, v_year = not_available, v_make = ''Nissan'',
       v_model = not_available, v_trim = not_available, v_msrp = not_available,
       v_sale_price = not_available \<rparr>"

definition is_vin_char :: "char \<Rightarrow> bool" where
  "is_vin_char c = (c \<in> set (ascii_upper @ digits))"

text \<open>The first run of \<open>n\<close> consecutive characters of a class, as \<open>re.search\<close> finds it.\<close>

fun find_run :: "(char \<Rightarrow> bool) \<Rightarrow> nat \<Rightarrow> string \<Rightarrow> string option" where
  "find_run P n [] = (if n = 0 then Some [] else None)"
| "find_run P n (c # cs) =
     (if n \<le> length (c # cs) \<and> list_all P (take n (c # cs)) then Some (take n (c # cs))
      else find_run P n cs)"

text \<open>\<open>re.search(r'20\d{2}', s)\<close>.\<close>

fun find_year :: "string \<Rightarrow> string option" where
  "find_year [] = None"
| "find_year (c # cs) =
     (if prefix ''20'' (c # cs) \<and> 4 \<le> length (c # cs) \<and> list_all is_digit (take 2 (drop 2 (c # cs)))
      then Some (take 4 (c # cs))
      else find_year cs)"

definition truthy :: "json \<Rightarrow> bool" where
  "truthy j =
     (case j of
        JNull \<Rightarrow> False
      | JBool b \<Rightarrow> b
      | JInt n \<Rightarrow> n \<noteq> 0
      | JFloat x \<Rightarrow> x \<noteq> Finite 0
      | JString s \<Rightarrow> s \<noteq> []
      | JArray xs \<Rightarrow> xs \<noteq> []
      | JObject kvs \<Rightarrow> kvs \<noteq> [])"

definition str_int :: "int \<Rightarrow> string" where
  "str_int n = (if n < 0 then CHR ''-'' # str_nat (nat (- n)) else str_nat (nat n))"

definition py_str :: "'w env \<Rightarrow> json \<Rightarrow> string" where
  "py_str env j =
     (case j of
        JString s \<Rightarrow> s
      | JNull \<Rightarrow> ''None''
      | JBool b \<Rightarrow> (if b then ''True'' else ''False'')
      | JInt n \<Rightarrow> str_int n
      | _ \<Rightarrow> py_repr env j)"

definition clean_vin :: "json \<Rightarrow> py_exn + string" where
  "clean_vin vin =
     (case vin of
        JString s \<Rightarrow>
          (let v = filter is_vin_char (upper s)
           in if length v = 17 then Inr v else Inr not_available)
      | _ \<Rightarrow> Inl AttributeError)"

definition clean_year :: "'w env \<Rightarrow> json \<Rightarrow> string" where
  "clean_year env year =
     (case find_year (py_str env year) of Some y \<Rightarrow> y | None \<Rightarrow> not_available)"

definition clean_price :: "'w env \<Rightarrow> json \<Rightarrow> py_exn + string" where
  "clean_price env price =
     (if \<not> truthy price then Inr not_available
      else case price of
        JString s \<Rightarrow>
          (if lower s \<in> set [''not available'', ''n/a'', ''null'', ''none'']
           then Inr not_available
           else let price_str = filter (\<lambda>c. is_digit c \<or> c = CHR ''.'') s
             in if price_str \<noteq> [] \<and> filter (\<lambda>c. c \<noteq> CHR ''.'') price_str \<noteq> []
                then (case format_price env price_str of
                        Some p \<Rightarrow> Inr p
                      | None \<Rightarrow> Inr not_available)
                else Inr not_available)
      | _ \<Rightarrow> Inl AttributeError)"

text \<open>\<open>data.get(key, default)\<close>; \<open>data\<close> must be a dictionary.\<close>

definition dict_get :: "json \<Rightarrow> string \<Rightarrow> json \<Rightarrow> py_exn + json" where
  "dict_get data k d =
     (case data of
        JObject kvs \<Rightarrow> (case map_of kvs k of Some v \<Rightarrow> Inr v | None \<Rightarrow> Inr d)
      | _ \<Rightarrow> Inl AttributeError)"

text \<open>\<open>data.get(key, default).strip()\<close>.\<close>

definition stripped_field :: "json \<Rightarrow> string \<Rightarrow> string \<Rightarrow> py_exn + string" where
  "stripped_field data k d =
     (case dict_get data k (JString d) of
        Inl e \<Rightarrow> Inl e
      | Inr (JString s) \<Rightarrow> Inr (strip s)
      | Inr _ \<Rightarrow> Inl AttributeError)"

definition bind_exn :: "py_exn + 'a \<Rightarrow> ('a \<Rightarrow> py_exn + 'b) \<Rightarrow> py_exn + 'b" where
  "bind_exn m f = (case m of Inl e \<Rightarrow> Inl e | Inr x \<Rightarrow> f x)"

text \<open>Lines 88-96: the dictionary \<open>cleaned_data\<close>, its entries evaluated in order.\<close>

definition cleaned_data :: "'w env \<Rightarrow> json \<Rightarrow> py_exn + vehicle_data" where
  "cleaned_data env data =
     bind_exn (dict_get data ''vin'' (JString '''')) (\<lambda>vin_raw.
     bind_exn (clean_vin vin_raw) (\<lambda>vin.
     bind_exn (dict_get data ''year'' (JString '''')) (\<lambda>year_raw.
     bind_exn (stripped_field data ''make'' ''Nissan'') (\<lambda>make.
     bind_exn (stripped_field data ''model'' not_available) (\<lambda>model.
     bind_exn (stripped_field data ''trim'' not_available) (\<lambda>trim.
     bind_exn (dict_get data ''msrp'' (JString '''')) (\<lambda>msrp_raw.
     bind_exn (clean_price env msrp_raw) (\<lambda>msrp.
     bind_exn (dict_get data ''sale_price'' (JString '''')) (\<lambda>sale_raw.
     bind_exn (clean_price env sale_raw) (\<lambda>sale.
       Inr \<lparr> v_vin = vin, v_year = clean_year env year_raw, v_make = make,
             v_model = model, v_trim = trim, v_msrp = msrp, v_sale_price = sale \<rparr>))))))))))"

definition fallback_extraction :: "string \<Rightarrow> vehicle_data" where
  "fallback_extraction content =
     (let data = default_data;
          data = (case find_run is_vin_char 17 content of
                    Some v \<Rightarrow> data\<lparr>v_vin := v\<rparr>
                  | None \<Rightarrow> data);
          data = (case find_year content of
                    Some y \<Rightarrow> data\<lparr>v_year := y\<rparr>
                  | None \<Rightarrow> data)
      in data)"

definition fence :: string where
  "fence = [CHR 0x60, CHR 0x60, CHR 0x60]"

text \<open>\<open>re.sub\<close> with the pattern of an opening fence, anchored at the start.\<close>

definition strip_open_fence :: "string \<Rightarrow> string" where
  "strip_open_fence s =
     (if prefix (fence @ ''jso'') s
      then let r = drop 6 s;
               r = (case r of c # t \<Rightarrow> if c = CHR ''n'' then t else r | [] \<Rightarrow> r)
           in dropWhile is_space r
      else s)"

text \<open>
  \<open>re.sub\<close> with the pattern of a closing fence, anchored at the end; the anchor
  also matches before a newline that ends the string.
\<close>

definition strip_close_fence :: "string \<Rightarrow> string" where
  "strip_close_fence s =
     (if suffix fence s then rev (dropWhile is_space (drop 3 (rev s)))
      else if suffix (fence @ [CHR 0x0A]) s
        then rev (dropWhile is_space (drop 4 (rev s))) @ [CHR 0x0A]
      else s)"

definition max_html_length :: nat where
  "max_html_length = 15000"

definition truncate_html :: "string \<Rightarrow> string" where
  "truncate_html html =
     (if length html > max_html_length
      then take max_html_length html @ [CHR 0x0A] @ ''...[truncated]''
      else html)"

text \<open>
  \<open>extract_vehicle_data\<close>. \<open>Inl\<close> is an exception that leaves the method. The handler
  of \<open>json.JSONDecodeError\<close> comes first and reads the local \<open>content\<close>, which is
  bound only once the request has returned.
\<close>

definition extract_vehicle_data ::
  "'w env \<Rightarrow> string \<Rightarrow> string \<Rightarrow> string \<Rightarrow> string option \<Rightarrow> 'w \<Rightarrow> (py_exn + vehicle_data) \<times> 'w" where
  "extract_vehicle_data env key html_content url page_title w =
     (let p = \<lparr> p_url = url,
                 p_page_title = (case page_title of None \<Rightarrow> ''None'' | Some t \<Rightarrow> t),
                 p_html = truncate_html html_content \<rparr>;
          (r, w') = chat env key p w
      in (case r of
            Api_Raises e \<Rightarrow>
              (if e = JSONDecodeError then Inl UnboundLocalError else Inr default_data)
          | Api_Content raw \<Rightarrow>
              (let content = strip_close_fence (strip_open_fence (strip raw))
               in case json_loads env content of
                    Decode_Error \<Rightarrow> Inr (fallback_extraction content)
                  | Loads_Raises e \<Rightarrow> Inr default_data
                  | Loaded data \<Rightarrow>
                      (case cleaned_data env data of
                         Inl e \<Rightarrow> Inr default_data
                       | Inr v \<Rightarrow> Inr v)),
          w'))"

section \<open>The scraper (scraper.py)\<close>

definition extract_competitor_name :: "'w env \<Rightarrow> string \<Rightarrow> string + string" where
  "extract_competitor_name env url =
     (case netloc env url of
        Inl e \<Rightarrow> Inl e
      | Inr domain \<Rightarrow>
          Inr (if contains ''gunnnissan'' domain then ''Gunn Nissan''
               else if contains ''ingrampark'' domain then ''Ingram Park Nissan''
               else if contains ''nissanboerne'' domain \<or> contains ''boerne'' domain
                 then ''Nissan of Boerne''
               else if contains ''championnissan'' domain
                 then ''Champion Nissan (New Braunfels)''
               else domain))"

definition exclude_terms :: "string list" where
  "exclude_terms =
     [''specials'', ''service'', ''parts'', ''about'', ''contact'',
      ''hours'', ''staff'', ''blog'', ''news'', ''reviews'', ''directions'',
      ''finance'', ''trade'', ''sitemap'', ''search'', ''inventory/new'',
      ''showroom'', ''certified'', ''used'', ''pre-owned'']"

text \<open>The last VDP indicator: \<open>/inventory/new-\<close> followed by four digits.\<close>

fun has_inventory_new :: "string \<Rightarrow> bool" where
  "has_inventory_new [] = False"
| "has_inventory_new (c # cs) =
     ((prefix ''/inventory/new-'' (c # cs) \<and> 19 \<le> length (c # cs)
        \<and> list_all is_digit (take 4 (drop 15 (c # cs))))
      \<or> has_inventory_new cs)"

definition is_new_nissan_vdp :: "string \<Rightarrow> bool" where
  "is_new_nissan_vdp url =
     (let url_lower = lower url;
          has_new = (contains ''new'' url_lower \<or> contains ''/n/'' url_lower);
          has_nissan = contains ''nissan'' url_lower;
          has_vin_or_detail =
            (find_run is_digit 17 url_lower \<noteq> None
             \<or> contains ''detail'' url_lower
             \<or> contains ''viewdetail'' url_lower
             \<or> contains ''/auto/'' url_lower
             \<or> contains ''/vehicle/'' url_lower
             \<or> has_inventory_new url_lower);
          has_exclude = list_ex (\<lambda>t. contains t url_lower) exclude_terms
      in has_new \<and> has_nissan \<and> has_vin_or_detail \<and> \<not> has_exclude)"

text \<open>\<open>self.vdp_limit and len(vdp_urls) >= self.vdp_limit\<close>: \<open>None\<close> and 0 are false.\<close>

definition limit_reached :: "int option \<Rightarrow> string list \<Rightarrow> bool" where
  "limit_reached limit vdp_urls =
     (case limit of
        None \<Rightarrow> False
      | Some k \<Rightarrow> k \<noteq> 0 \<and> int (length vdp_urls) \<ge> k)"

text \<open>The loop of \<open>parse_sitemap\<close> over the texts of the \<open>loc\<close> elements, with its \<open>break\<close>.\<close>

fun collect_vdps :: "int option \<Rightarrow> string option list \<Rightarrow> string list \<Rightarrow> string list" where
  "collect_vdps limit [] vdp_urls = vdp_urls"
| "collect_vdps limit (None # es) vdp_urls = collect_vdps limit es vdp_urls"
| "collect_vdps limit (Some url # es) vdp_urls =
     (if url \<noteq> [] \<and> is_new_nissan_vdp url
      then (let vdp_urls = vdp_urls @ [url]
            in if limit_reached limit vdp_urls then vdp_urls
               else collect_vdps limit es vdp_urls)
      else collect_vdps limit es vdp_urls)"

definition parse_sitemap ::
  "'w env \<Rightarrow> int option \<Rightarrow> string \<Rightarrow> 'w \<Rightarrow> (string + string list) \<times> 'w" where
  "parse_sitemap env limit sitemap_url w =
     (let (r, w') = get_sitemap env sitemap_url w
      in (case r of
            Inl e \<Rightarrow> Inl (''Failed to parse sitemap '' @ sitemap_url @ '': '' @ e)
          | Inr doc \<Rightarrow>
              (let urls = (if ns_locs doc = [] then plain_locs doc else ns_locs doc)
               in Inr (collect_vdps limit urls [])),
          w'))"

record vdp_data =
  vd_competitor :: string
  vd_url :: string
  vd_html_content :: string
  vd_page_title :: "string option"

definition scrape_vdp :: "'w env \<Rightarrow> string \<Rightarrow> 'w \<Rightarrow> (string + vdp_data) \<times> 'w" where
  "scrape_vdp env url w =
     (let (r, w') = get_vdp env url w
      in (case r of
            Inl e \<Rightarrow> Inl (''Failed to scrape VDP '' @ url @ '': '' @ e)
          | Inr page \<Rightarrow>
              (case extract_competitor_name env url of
                 Inl e \<Rightarrow> Inl (''Failed to scrape VDP '' @ url @ '': '' @ e)
               | Inr competitor_name \<Rightarrow>
                   Inr \<lparr> vd_competitor = competitor_name, vd_url = url,
                         vd_html_content = f_html_content page,
                         vd_page_title = f_page_title page \<rparr>),
          w'))"

section \<open>The runner (app.py)\<close>

text \<open>
  The calls of \<open>print\<close> and the pause of one second after a page change nothing that
  the job or the disk holds; they are left out.
\<close>

text \<open>
  Lines 96-118, the body of the inner \<open>try\<close> up to the finished \<open>result\<close>: the row,
  or the text \<open>str(e)\<close> of the exception that the handler at line 126 receives.
\<close>

definition page_result ::
  "'w env \<Rightarrow> string \<Rightarrow> string \<Rightarrow> 'w \<Rightarrow> (string + result_row) \<times> 'w" where
  "page_result env key vdp_url w =
     (let (r, w) = scrape_vdp env vdp_url w
      in case r of
           Inl e \<Rightarrow> (Inl e, w)
         | Inr vdp \<Rightarrow>
             (let (x, w) = extract_vehicle_data env key (vd_html_content vdp) (vd_url vdp)
                             (vd_page_title vdp) w
              in case x of
                   Inl exn \<Rightarrow> (Inl (exn_text env exn), w)
                 | Inr vehicle \<Rightarrow>
                     (let (stamp, w) = now env w
                      in (Inr \<lparr> r_competitor = vd_competitor vdp, r_url = vd_url vdp,
                                r_vin = v_vin vehicle, r_year = v_year vehicle,
                                r_make = v_make vehicle, r_model = v_model vehicle,
                                r_trim = v_trim vehicle, r_msrp = v_msrp vehicle,
                                r_sale_price = v_sale_price vehicle,
                                r_date_scraped = stamp \<rparr>, w))))"

text \<open>One iteration of the loop over the pages (lines 92-129).\<close>

definition process_vdp ::
  "'w env \<Rightarrow> string \<Rightarrow> nat \<Rightarrow> nat \<Rightarrow> string \<Rightarrow> job \<times> 'w \<Rightarrow> job \<times> 'w" where
  "process_vdp env competitor_name n vdp_idx vdp_url jw =
     (let (j, w) = jw;
          j = j\<lparr>progress := (progress j)\<lparr>current_vdp := vdp_idx\<rparr>\<rparr>;
          j = j\<lparr>status := ''Processing '' @ competitor_name @ '' - VDP '' @ str_nat vdp_idx
                              @ ''/'' @ str_nat n\<rparr>;
          (r, w) = page_result env (openai_api_key j) vdp_url w
      in case r of
           Inr row \<Rightarrow>
             (let j = add_result row j;
                  j = j\<lparr>progress := (progress j)\<lparr>processed_vdps :=
                                        processed_vdps (progress j) + 1\<rparr>\<rparr>
              in (j, w))
         | Inl e \<Rightarrow> (add_error (''Error processing '' @ vdp_url @ '': '' @ e) j, w))"

fun process_vdps ::
  "'w env \<Rightarrow> string \<Rightarrow> nat \<Rightarrow> nat \<Rightarrow> string list \<Rightarrow> job \<times> 'w \<Rightarrow> job \<times> 'w" where
  "process_vdps env competitor_name n vdp_idx [] jw = jw"
| "process_vdps env competitor_name n vdp_idx (vdp_url # rest) jw =
     process_vdps env competitor_name n (Suc vdp_idx) rest
       (process_vdp env competitor_name n vdp_idx vdp_url jw)"

text \<open>One iteration of the loop over the sitemaps (lines 74-136).\<close>

definition process_sitemap :: "'w env \<Rightarrow> nat \<Rightarrow> string \<Rightarrow> job \<times> 'w \<Rightarrow> job \<times> 'w" where
  "process_sitemap env idx sitemap_url jw =
     (let (j, w) = jw
      in case extract_competitor_name env sitemap_url of
           Inl e \<Rightarrow> (add_error (''Error processing sitemap '' @ sitemap_url @ '': '' @ e) j, w)
         | Inr competitor_name \<Rightarrow>
             (let j = j\<lparr>progress := (progress j)\<lparr>current_competitor := competitor_name,
                                                  completed_competitors := idx - 1,
                                                  current_vdp := 0, total_vdps := 0\<rparr>\<rparr>;
                  j = j\<lparr>status := ''Parsing sitemap for '' @ competitor_name\<rparr>;
                  (r, w) = parse_sitemap env (Some (vdp_limit env)) sitemap_url w
              in case r of
                   Inl e \<Rightarrow>
                     (add_error (''Error processing sitemap '' @ sitemap_url @ '': '' @ e) j, w)
                 | Inr vdp_urls \<Rightarrow>
                     (let j = j\<lparr>progress := (progress j)\<lparr>total_vdps := length vdp_urls\<rparr>\<rparr>;
                          (j, w) = process_vdps env competitor_name (length vdp_urls) 1 vdp_urls
                                     (j, w);
                          j = j\<lparr>progress := (progress j)\<lparr>completed_competitors := idx\<rparr>\<rparr>
                      in (j, w))))"

fun process_sitemaps :: "'w env \<Rightarrow> nat \<Rightarrow> string list \<Rightarrow> job \<times> 'w \<Rightarrow> job \<times> 'w" where
  "process_sitemaps env idx [] jw = jw"
| "process_sitemaps env idx (sitemap_url # rest) jw =
     process_sitemaps env (Suc idx) rest (process_sitemap env idx sitemap_url jw)"

subsection \<open>Export\<close>

text \<open>The files on disk: absolute path to content.\<close>

type_synonym files = "string \<rightharpoonup> string"

text \<open>
  A path as the operating system sees it from a directory: an absolute path stays, a
  relative one is joined to the directory.
\<close>

definition resolve :: "string \<Rightarrow> string \<Rightarrow> string" where
  "resolve dir path =
     (case path of
        c # cs \<Rightarrow>
          if c = CHR ''/'' then path
          else if dir \<noteq> [] \<and> last dir = CHR ''/'' then dir @ path
          else dir @ ''/'' @ path
      | [] \<Rightarrow> dir)"

definition fieldnames :: "string list" where
  "fieldnames = [''competitor'', ''url'', ''vin'', ''year'', ''make'', ''model'', ''trim'',
                 ''msrp'', ''sale_price'', ''date_scraped'']"

definition row_values :: "result_row \<Rightarrow> string list" where
  "row_values r = [r_competitor r, r_url r, r_vin r, r_year r, r_make r, r_model r, r_trim r,
                   r_msrp r, r_sale_price r, r_date_scraped r]"

text \<open>
  \<open>generate_csv\<close>. The relative path \<open>exports/<job_id>.csv\<close> is opened from the working
  directory and returned as it is. When the operating system refuses, the exception
  text is returned; what is then on disk is not modelled.
\<close>

definition generate_csv ::
  "'w env \<Rightarrow> string \<Rightarrow> result_row list \<Rightarrow> files \<Rightarrow> (string + string) \<times> files" where
  "generate_csv env jid rows fs =
     (let csv_path = ''exports/'' @ jid @ ''.csv''
      in case export_io env csv_path of
           Some e \<Rightarrow> (Inl e, fs)
         | None \<Rightarrow>
             (Inr csv_path,
              fs(resolve (cwd env) csv_path \<mapsto>
                   (if rows \<noteq> []
                    then csv_row env fieldnames @ concat (map (\<lambda>r. csv_row env (row_values r)) rows)
                    else []))))"

text \<open>The outer handler (lines 147-150).\<close>

definition critical_error :: "string \<Rightarrow> job \<Rightarrow> job" where
  "critical_error e j = add_error (''Critical error: '' @ e) (j\<lparr>status := ''error: '' @ e\<rparr>)"

definition run_analysis :: "'w env \<Rightarrow> job \<Rightarrow> 'w \<Rightarrow> files \<Rightarrow> job \<times> 'w \<times> files" where
  "run_analysis env j w fs =
     (let j = j\<lparr>status := ''running''\<rparr>
      in case client_init env (openai_api_key j) of
           Some e \<Rightarrow> (critical_error e j, w, fs)
         | None \<Rightarrow>
             (let (j, w) = process_sitemaps env 1 (sitemap_urls j) (j, w);
                  j = j\<lparr>status := ''Generating CSV''\<rparr>;
                  (r, fs) = generate_csv env (job_id j) (results j) fs
              in case r of
                   Inl e \<Rightarrow> (critical_error e j, w, fs)
                 | Inr path \<Rightarrow>
                     (j\<lparr>csv_path := Some path, status := ''completed'', completed := True\<rparr>,
                      w, fs)))"

subsection \<open>Download\<close>

datatype download_response =
  Dl_Not_Found
| Dl_Bad_Request string
| Dl_File_Missing
| Dl_File string string

text \<open>
  \<open>download_csv\<close>; \<open>stamp\<close> is the formatted time of the request. \<open>not job.csv_path\<close>
  holds for \<open>None\<close> and for the empty string. \<open>send_file\<close> looks for the stored path
  from \<open>app.root_path\<close>, not from the working directory; when no file is there it raises
  and the request ends with a server error (\<open>Dl_File_Missing\<close>).
\<close>

definition download_csv ::
  "'w env \<Rightarrow> registry \<Rightarrow> string \<Rightarrow> files \<Rightarrow> string \<Rightarrow> download_response" where
  "download_csv env reg jid fs stamp =
     (case reg jid of
        None \<Rightarrow> Dl_Not_Found
      | Some j \<Rightarrow>
          (case csv_path j of
             None \<Rightarrow> Dl_Bad_Request ''Job not completed or CSV not available''
           | Some path \<Rightarrow>
               if \<not> completed j \<or> path = []
               then Dl_Bad_Request ''Job not completed or CSV not available''
               else (case fs (resolve (root_path env) path) of
                       None \<Rightarrow> Dl_File_Missing
                     | Some content \<Rightarrow>
                         Dl_File (''nissan_pricing_analysis_'' @ stamp @ ''.csv'') content)))"

subsection \<open>Submission and the runner thread\<close>

text \<open>
  The process, as far as the handlers and the runner threads share it: the registry,
  the runner threads that have been started, the outside world and the disk. A job
  object is referred to from the registry and from its runner thread only, so the
  entry of the registry stands for the object, and a thread works on the entry.
\<close>

datatype thread_state =
  Ready
| Begun

record 'w system =
  sys_registry :: registry
  sys_threads :: "string \<rightharpoonup> thread_state"
  sys_world :: 'w
  sys_files :: files

text \<open>
  \<open>start_analysis\<close>; the fresh identifier of \<open>uuid.uuid4()\<close> is an argument. A rejected
  request leaves the process as it was. An accepted one stores the new job and starts
  its thread (lines 198-205), which has executed nothing yet (\<open>Ready\<close>).
\<close>

definition start_analysis ::
  "request_data \<Rightarrow> string \<Rightarrow> 'w system \<Rightarrow> submit_response \<times> 'w system" where
  "start_analysis data fresh_id sys =
     (let urls = submitted_urls data in
      if urls = [] then (Bad_Request ''At least one sitemap URL is required'', sys)
      else let key = get_field data ''openai_api_key'' in
        if key = [] then (Bad_Request ''OpenAI API key is required'', sys)
        else let j = new_job fresh_id urls key in
          (Started fresh_id,
           sys\<lparr>sys_registry := (sys_registry sys)(fresh_id \<mapsto> j),
               sys_threads := (sys_threads sys)(fresh_id \<mapsto> Ready)\<rparr>))"

text \<open>
  The steps of a runner thread, which the scheduler may take at any time after the
  thread was started, before or after the response of the submission is sent and
  between any two requests. The first step is the assignment of line 66.
\<close>

definition runner_begin :: "string \<Rightarrow> 'w system \<Rightarrow> 'w system" where
  "runner_begin jid sys =
     (case (sys_threads sys jid, sys_registry sys jid) of
        (Some Ready, Some j) \<Rightarrow>
          sys\<lparr>sys_registry := (sys_registry sys)(jid \<mapsto> j\<lparr>status := ''running''\<rparr>),
              sys_threads := (sys_threads sys)(jid \<mapsto> Begun)\<rparr>
      | _ \<Rightarrow> sys)"

text \<open>
  The second step is the rest of \<open>run_analysis\<close>, to its end; the thread is then gone.
  (\<open>run_analysis\<close> repeats the assignment of line 66, which changes nothing here.) The
  states that the job passes through during this step are not steps of their own.
\<close>

definition runner_finish :: "'w env \<Rightarrow> string \<Rightarrow> 'w system \<Rightarrow> 'w system" where
  "runner_finish env jid sys =
     (case (sys_threads sys jid, sys_registry sys jid) of
        (Some Begun, Some j) \<Rightarrow>
          (case run_analysis env j (sys_world sys) (sys_files sys) of
             (j', w', fs') \<Rightarrow>
               \<lparr> sys_registry = (sys_registry sys)(jid \<mapsto> j'),
                 sys_threads = (sys_threads sys)(jid := None),
                 sys_world = w', sys_files = fs' \<rparr>)
      | _ \<Rightarrow> sys)"

section \<open>Notions of the specification\<close>

text \<open>A blank string: nothing but whitespace.\<close>

definition blank :: "string \<Rightarrow> bool" where
  "blank s = list_all is_space s"

text \<open>The credential of a request, as sent.\<close>

definition credential :: "request_data \<Rightarrow> string" where
  "credential data = (case data ''openai_api_key'' of None \<Rightarrow> [] | Some v \<Rightarrow> v)"

text \<open>The outcome of each page of a list, in order, the world threaded as the loop does.\<close>

fun page_outcomes :: "'w env \<Rightarrow> string \<Rightarrow> string list \<Rightarrow> 'w \<Rightarrow> (string + result_row) list" where
  "page_outcomes env key [] w = []"
| "page_outcomes env key (u # us) w =
     (case page_result env key u w of (r, w') \<Rightarrow> r # page_outcomes env key us w')"

text \<open>The rows of the successful pages, and the error entries of the failed ones.\<close>

fun rows_of :: "(string + result_row) list \<Rightarrow> result_row list" where
  "rows_of [] = []"
| "rows_of (Inr r # os) = r # rows_of os"
| "rows_of (Inl e # os) = rows_of os"

fun page_errors_of :: "string list \<Rightarrow> (string + result_row) list \<Rightarrow> string list" where
  "page_errors_of (u # us) (Inl e # os) = (''Error processing '' @ u @ '': '' @ e) # page_errors_of us os"
| "page_errors_of (u # us) (Inr r # os) = page_errors_of us os"
| "page_errors_of us os = []"

text \<open>An entry of \<open>errors\<close> written by the handler of a page (line 127).\<close>

definition is_page_error :: "string \<Rightarrow> bool" where
  "is_page_error e =
     (prefix ''Error processing '' e \<and> \<not> prefix ''Error processing sitemap '' e)"

text \<open>The pages a sitemap yields when the run reaches it in world \<open>w\<close>.\<close>

definition sitemap_pages :: "'w env \<Rightarrow> string \<Rightarrow> 'w \<Rightarrow> string list" where
  "sitemap_pages env sitemap_url w =
     (case extract_competitor_name env sitemap_url of
        Inl e \<Rightarrow> []
      | Inr competitor_name \<Rightarrow>
          (case fst (parse_sitemap env (Some (vdp_limit env)) sitemap_url w) of
             Inl e \<Rightarrow> []
           | Inr vdp_urls \<Rightarrow> vdp_urls))"

text \<open>All pages discovered by the loop over the sitemaps, in order of discovery.\<close>

fun discovered_pages :: "'w env \<Rightarrow> nat \<Rightarrow> string list \<Rightarrow> job \<times> 'w \<Rightarrow> string list" where
  "discovered_pages env idx [] jw = []"
| "discovered_pages env idx (sitemap_url # rest) jw =
     sitemap_pages env sitemap_url (snd jw)
       @ discovered_pages env (Suc idx) rest (process_sitemap env idx sitemap_url jw)"

text \<open>All pages discovered by a run.\<close>

definition run_discovered :: "'w env \<Rightarrow> job \<Rightarrow> 'w \<Rightarrow> string list" where
  "run_discovered env j w =
     (case client_init env (openai_api_key j) of
        Some e \<Rightarrow> []
      | None \<Rightarrow> discovered_pages env 1 (sitemap_urls j) (j\<lparr>status := ''running''\<rparr>, w))"

text \<open>The \<open>loc\<close> texts that \<open>parse_sitemap\<close> accepts, in document order.\<close>

fun matching_urls :: "string option list \<Rightarrow> string list" where
  "matching_urls [] = []"
| "matching_urls (None # es) = matching_urls es"
| "matching_urls (Some url # es) =
     (if url \<noteq> [] \<and> is_new_nissan_vdp url then url # matching_urls es else matching_urls es)"




text \<open>The fields of a job that the loops of the runner leave alone.\<close>

definition same_identity :: "job \<Rightarrow> job \<Rightarrow> bool" where
  "same_identity j j' =
     (job_id j' = job_id j \<and> sitemap_urls j' = sitemap_urls j
      \<and> openai_api_key j' = openai_api_key j \<and> completed j' = completed j
      \<and> csv_path j' = csv_path j)"

text \<open>The number of entries of \<open>errors\<close> written by the handler of a page.\<close>

definition page_level :: "job \<Rightarrow> nat" where
  "page_level j = length (filter is_page_error (errors j))"



text \<open>The world after the loop over the pages of a list.\<close>

fun pages_world :: "'w env \<Rightarrow> string \<Rightarrow> string list \<Rightarrow> 'w \<Rightarrow> 'w" where
  "pages_world env key [] w = w"
| "pages_world env key (u # us) w = pages_world env key us (snd (page_result env key u w))"

text \<open>
  What the run owes to one sitemap reached in world \<open>w\<close>: the rows of its pages that
  succeed, its error entries (one for a sitemap that cannot be named or parsed, otherwise
  one for each page that fails), and the world it leaves.
\<close>

definition sitemap_rows :: "'w env \<Rightarrow> string \<Rightarrow> string \<Rightarrow> 'w \<Rightarrow> result_row list" where
  "sitemap_rows env key sitemap_url w =
     (case extract_competitor_name env sitemap_url of
        Inl e \<Rightarrow> []
      | Inr competitor_name \<Rightarrow>
          (case parse_sitemap env (Some (vdp_limit env)) sitemap_url w of
             (Inl e, w1) \<Rightarrow> []
           | (Inr vdp_urls, w1) \<Rightarrow> rows_of (page_outcomes env key vdp_urls w1)))"

definition sitemap_errors :: "'w env \<Rightarrow> string \<Rightarrow> string \<Rightarrow> 'w \<Rightarrow> string list" where
  "sitemap_errors env key sitemap_url w =
     (case extract_competitor_name env sitemap_url of
        Inl e \<Rightarrow> [''Error processing sitemap '' @ sitemap_url @ '': '' @ e]
      | Inr competitor_name \<Rightarrow>
          (case parse_sitemap env (Some (vdp_limit env)) sitemap_url w of
             (Inl e, w1) \<Rightarrow> [''Error processing sitemap '' @ sitemap_url @ '': '' @ e]
           | (Inr vdp_urls, w1) \<Rightarrow>
               page_errors_of vdp_urls (page_outcomes env key vdp_urls w1)))"

definition sitemap_world :: "'w env \<Rightarrow> string \<Rightarrow> string \<Rightarrow> 'w \<Rightarrow> 'w" where
  "sitemap_world env key sitemap_url w =
     (case extract_competitor_name env sitemap_url of
        Inl e \<Rightarrow> w
      | Inr competitor_name \<Rightarrow>
          (case parse_sitemap env (Some (vdp_limit env)) sitemap_url w of
             (Inl e, w1) \<Rightarrow> w1
           | (Inr vdp_urls, w1) \<Rightarrow> pages_world env key vdp_urls w1))"

text \<open>The same over the sitemaps of a job, in the order of submission.\<close>

fun sources_rows :: "'w env \<Rightarrow> string \<Rightarrow> string list \<Rightarrow> 'w \<Rightarrow> result_row list" where
  "sources_rows env key [] w = []"
| "sources_rows env key (u # us) w =
     sitemap_rows env key u w @ sources_rows env key us (sitemap_world env key u w)"

fun sources_errors :: "'w env \<Rightarrow> string \<Rightarrow> string list \<Rightarrow> 'w \<Rightarrow> string list" where
  "sources_errors env key [] w = []"
| "sources_errors env key (u # us) w =
     sitemap_errors env key u w @ sources_errors env key us (sitemap_world env key u w)"



section \<open>Concrete inputs\<close>

definition ex_request :: request_data where
  "ex_request = [''gunn_nissan_url'' \<mapsto> '' https://www.gunnnissan.com/sitemap.xml'',
                 ''boerne_url'' \<mapsto> ''  '',
                 ''openai_api_key'' \<mapsto> ''sk-test '']"

definition ex_request_blank_key :: request_data where
  "ex_request_blank_key = [''gunn_nissan_url'' \<mapsto> ''https://www.gunnnissan.com/sitemap.xml'',
                           ''openai_api_key'' \<mapsto> ''  '']"

definition ex_job_12_errors :: job where
  "ex_job_12_errors =
     (new_job ''job-1'' [''https://www.gunnnissan.com/sitemap.xml''] ''sk-test'')
       \<lparr>errors := [''e1'', ''e2'', ''e3'', ''e4'', ''e5'', ''e6'', ''e7'', ''e8'', ''e9'',
                   ''e10'', ''e11'', ''e12'']\<rparr>"

text \<open>
  A small world: a sitemap listing four vehicle pages, an excluded page and an empty
  \<open>loc\<close>, and a second sitemap; the second page cannot be fetched, the third gets an
  answer that is not JSON, and the limit is three pages for a sitemap. The process runs
  in the directory of app.py.
\<close>

definition ex_sitemap :: string where
  "ex_sitemap = ''http://gunnnissan.com/sitemap.xml''"

definition ex_page :: "string \<Rightarrow> string" where
  "ex_page n = ''http://gunnnissan.com/new/detail/'' @ n"

definition ex_doc :: xml_root where
  "ex_doc = \<lparr> ns_locs = [Some (ex_page ''1''), Some ''http://gunnnissan.com/about'', None,
                           Some (ex_page ''2''), Some (ex_page ''3''), Some (ex_page ''4'')],
               plain_locs = [] \<rparr>"

text \<open>A second sitemap, without the namespace, listing one more page.\<close>

definition ex_sitemap_2 :: string where
  "ex_sitemap_2 = ''http://gunnnissan.com/sitemap2.xml''"

definition ex_doc_2 :: xml_root where
  "ex_doc_2 = \<lparr> ns_locs = [], plain_locs = [Some (ex_page ''5'')] \<rparr>"

definition ex_json :: json where
  "ex_json = JObject [(''vin'', JString ''1n4bl4dv5rn300001''), (''year'', JInt 2024),
                      (''make'', JString '' Nissan ''), (''model'', JString ''Altima''),
                      (''trim'', JString ''''), (''msrp'', JString ''$28,999''),
                      (''sale_price'', JInt 0)]"

definition ex_env :: "unit env" where
  "ex_env =
     \<lparr> chat = (\<lambda>key p w.
                 (if p_url p = ex_page ''3'' then Api_Content ''Sorry, no data for the 2024 model''
                  else Api_Content ''{response}'', w)),
       json_loads = (\<lambda>s. if s = ''{response}'' then Loaded ex_json else Decode_Error),
       format_price = (\<lambda>s. if s = ''28999'' then Some ''28999.00'' else None),
       py_repr = (\<lambda>j. ''?''),
       netloc = (\<lambda>u. Inr ''gunnnissan.com''),
       get_sitemap = (\<lambda>u w. (if u = ex_sitemap_2 then Inr ex_doc_2 else Inr ex_doc, w)),
       get_vdp = (\<lambda>u w.
                    (if u = ex_page ''2'' then Inl ''timed out''
                     else Inr \<lparr> f_html_content = ''<div class=price>$28,999</div>'',
                                f_page_title = Some ''New Nissan Altima'' \<rparr>, w)),
       client_init = (\<lambda>key. None),
       now = (\<lambda>w. (''2025-01-01 12:00:00'', w)),
       export_io = (\<lambda>path. None),
       csv_row = (\<lambda>fields. concat (map (\<lambda>f. f @ '','') fields) @ [CHR 0x0D, CHR 0x0A]),
       exn_text = (\<lambda>e. ''exception''),
       vdp_limit = 3,
       cwd = ''/srv/app'',
       root_path = ''/srv/app'' \<rparr>"

text \<open>The same world with a disk that refuses the export.\<close>

definition ex_env_no_disk :: "unit env" where
  "ex_env_no_disk = ex_env\<lparr>export_io := (\<lambda>path. Some ''Permission denied'')\<rparr>"

text \<open>The same world with no page reachable.\<close>

definition ex_env_no_pages :: "unit env" where
  "ex_env_no_pages = ex_env\<lparr>get_vdp := (\<lambda>u w. (Inl ''timed out'', w))\<rparr>"

definition ex_job :: job where
  "ex_job = new_job ''job-1'' [ex_sitemap] ''sk-test''"

text \<open>What the run over this world records for its pages.\<close>

definition ex_row_1 :: result_row where
  "ex_row_1 =
     \<lparr> r_competitor = ''Gunn Nissan'', r_url = ex_page ''1'', r_vin = ''1N4BL4DV5RN300001'',
       r_year = ''2024'', r_make = ''Nissan'', r_model = ''Altima'', r_trim = '''',
       r_msrp = ''28999.00'', r_sale_price = ''Not Available'',
       r_date_scraped = ''2025-01-01 12:00:00'' \<rparr>"

definition ex_row_3 :: result_row where
  "ex_row_3 =
     \<lparr> r_competitor = ''Gunn Nissan'', r_url = ex_page ''3'', r_vin = ''Not Available'',
       r_year = ''2024'', r_make = ''Nissan'', r_model = ''Not Available'',
       r_trim = ''Not Available'', r_msrp = ''Not Available'',
       r_sale_price = ''Not Available'', r_date_scraped = ''2025-01-01 12:00:00'' \<rparr>"

definition ex_failure_2 :: string where
  "ex_failure_2 = ''Failed to scrape VDP '' @ ex_page ''2'' @ '': timed out''"


definition ex_final_job :: job where
  "ex_final_job =
     \<lparr> job_id = ''job-1'', sitemap_urls = [ex_sitemap], openai_api_key = ''sk-test'',
       status = ''completed'',
       progress = \<lparr> current_competitor = ''Gunn Nissan'', total_competitors = 1,
                    completed_competitors = 1, current_vdp = 3, total_vdps = 3,
                    processed_vdps = 2 \<rparr>,
       results = [ex_row_1, ex_row_3],
       errors = [''Error processing '' @ ex_page ''2'' @ '': '' @ ex_failure_2],
       completed = True, csv_path = Some ''exports/job-1.csv'' \<rparr>"

text \<open>The world with no page reachable, the process started one directory above app.py.\<close>

definition ex_env_elsewhere :: "unit env" where
  "ex_env_elsewhere = ex_env_no_pages\<lparr>cwd := ''/srv''\<rparr>"

text \<open>A job for both sitemaps.\<close>

definition ex_job_2 :: job where
  "ex_job_2 = new_job ''job-2'' [ex_sitemap, ex_sitemap_2] ''sk-test''"

definition ex_row_5 :: result_row where
  "ex_row_5 = ex_row_1\<lparr>r_url := ex_page ''5''\<rparr>"

text \<open>A process that has seen no request yet.\<close>

definition ex_system :: "unit system" where
  "ex_system = \<lparr> sys_registry = Map.empty, sys_threads = Map.empty, sys_world = (),
                  sys_files = Map.empty \<rparr>"

section \<open>Helper lemmas on strings and lists\<close>

lemma dropWhile_all_iff: "(\<forall>x\<in>set (dropWhile P s). P x) \<longleftrightarrow> (\<forall>x\<in>set s. P x)"
proof
  assume all: "\<forall>x\<in>set (dropWhile P s). P x"
  have "dropWhile P s = []"
  proof (rule ccontr)
    assume ne: "dropWhile P s \<noteq> []"
    then have "\<not> P (hd (dropWhile P s))" by (rule hd_dropWhile)
    moreover have "hd (dropWhile P s) \<in> set (dropWhile P s)" using ne by simp
    ultimately show False using all by blast
  qed
  then show "\<forall>x\<in>set s. P x" by (simp add: dropWhile_eq_Nil_conv)
next
  assume "\<forall>x\<in>set s. P x"
  then show "\<forall>x\<in>set (dropWhile P s). P x" by (meson set_dropWhileD)
qed

lemma strip_empty_iff: "strip s = [] \<longleftrightarrow> blank s"
  by (simp add: strip_def blank_def dropWhile_eq_Nil_conv list_all_iff dropWhile_all_iff)

lemma get_field_empty_iff: "get_field data ''openai_api_key'' = [] \<longleftrightarrow> blank (credential data)"
  by (simp add: get_field_def credential_def strip_empty_iff blank_def split: option.splits)

lemma last10_short: "length xs \<le> 10 \<Longrightarrow> last10 xs = xs"
  by (simp add: last10_def)

lemma last10_long: "10 < length xs \<Longrightarrow> length (last10 xs) = 10"
  by (simp add: last10_def)

lemma last10_suffix: "take (length xs - 10) xs @ last10 xs = xs"
  by (simp add: last10_def)

section \<open>Submission and status query\<close>

lemma ex_request_urls: "submitted_urls ex_request = [''https://www.gunnnissan.com/sitemap.xml'']"
  by (simp add: submitted_urls_def ex_request_def get_field_def strip_def is_space_def whitespace_def)

lemma ex_request_key: "\<not> blank (credential ex_request)"
  by (simp add: credential_def ex_request_def blank_def is_space_def whitespace_def)

lemma ex_request_blank: "blank (credential ex_request_blank_key)"
  by (simp add: credential_def ex_request_blank_key_def blank_def is_space_def whitespace_def)

lemma run_analysis_running:
  "run_analysis env (j\<lparr>status := ''running''\<rparr>) w fs = run_analysis env j w fs"
  by (simp add: run_analysis_def)

text \<open>
  Claim C5, as the code has it. \<open>start_analysis\<close> answers with a client error, stores
  nothing and starts no runner when the filtered list of sitemap URLs is empty or the
  credential is blank. Otherwise it stores a new job under the fresh identifier, starts
  the runner thread on that job and returns the identifier. The job is created with
  status \<open>starting\<close>, not completed, no results and no errors; of the progress counters,
  \<open>completed_competitors\<close>, \<open>current_vdp\<close>, \<open>total_vdps\<close> and \<open>processed_vdps\<close> are zero
  and \<open>total_competitors\<close> is the number of submitted sitemaps. A status query finds
  the job from then on. It shows this state as long as the thread has executed nothing;
  after the first step of the thread it shows the status \<open>running\<close>, and after the last
  the job as the run has left it.
\<close>

theorem start_analysis_contract:
  "(submitted_urls data = [] \<or> blank (credential data) \<longrightarrow>
      (\<exists>msg. start_analysis data fresh_id sys = (Bad_Request msg, sys)))
   \<and> (submitted_urls data \<noteq> [] \<and> \<not> blank (credential data) \<longrightarrow>
      (\<exists>j sys'. start_analysis data fresh_id sys = (Started fresh_id, sys')
         \<and> sys' = sys\<lparr>sys_registry := (sys_registry sys)(fresh_id \<mapsto> j),
                       sys_threads := (sys_threads sys)(fresh_id \<mapsto> Ready)\<rparr>
         \<and> sitemap_urls j = submitted_urls data
         \<and> openai_api_key j = strip (credential data)
         \<and> results j = [] \<and> errors j = []
         \<and> csv_path j = None
         \<and> job_status (sys_registry sys') fresh_id =
             Status_Ok \<lparr> sb_job_id = fresh_id, sb_status = ''starting'',
                         sb_progress = \<lparr> current_competitor = '''',
                                         total_competitors = length (submitted_urls data),
                                         completed_competitors = 0, current_vdp = 0,
                                         total_vdps = 0, processed_vdps = 0 \<rparr>,
                         sb_completed = False, sb_total_results = 0, sb_total_errors = 0,
                         sb_errors = [] \<rparr>
         \<and> job_status (sys_registry (runner_begin fresh_id sys')) fresh_id =
             Status_Ok \<lparr> sb_job_id = fresh_id, sb_status = ''running'',
                         sb_progress = \<lparr> current_competitor = '''',
                                         total_competitors = length (submitted_urls data),
                                         completed_competitors = 0, current_vdp = 0,
                                         total_vdps = 0, processed_vdps = 0 \<rparr>,
                         sb_completed = False, sb_total_results = 0, sb_total_errors = 0,
                         sb_errors = [] \<rparr>
         \<and> sys_registry (runner_finish env fresh_id (runner_begin fresh_id sys')) fresh_id
             = Some (fst (run_analysis env j (sys_world sys) (sys_files sys)))))"
proof (intro conjI impI)
  assume "submitted_urls data = [] \<or> blank (credential data)"
  then show "\<exists>msg. start_analysis data fresh_id sys = (Bad_Request msg, sys)"
    by (auto simp: start_analysis_def Let_def get_field_empty_iff)
next
  assume ok: "submitted_urls data \<noteq> [] \<and> \<not> blank (credential data)"
  have key: "get_field data ''openai_api_key'' = strip (credential data)"
    by (simp add: get_field_def credential_def strip_def split: option.splits)
  from ok have nonblank: "get_field data ''openai_api_key'' \<noteq> []"
    by (simp add: get_field_empty_iff)
  let ?j = "new_job fresh_id (submitted_urls data) (get_field data ''openai_api_key'')"
  let ?sys' = "sys\<lparr>sys_registry := (sys_registry sys)(fresh_id \<mapsto> ?j),
                     sys_threads := (sys_threads sys)(fresh_id \<mapsto> Ready)\<rparr>"
  have start: "start_analysis data fresh_id sys = (Started fresh_id, ?sys')"
    using ok nonblank by (simp add: start_analysis_def Let_def)
  have fields: "sitemap_urls ?j = submitted_urls data"
    "openai_api_key ?j = strip (credential data)"
    "results ?j = []" "errors ?j = []" "csv_path ?j = None"
    by (simp_all add: new_job_def key)
  have first: "job_status (sys_registry ?sys') fresh_id =
             Status_Ok \<lparr> sb_job_id = fresh_id, sb_status = ''starting'',
                         sb_progress = \<lparr> current_competitor = '''',
                                         total_competitors = length (submitted_urls data),
                                         completed_competitors = 0, current_vdp = 0,
                                         total_vdps = 0, processed_vdps = 0 \<rparr>,
                         sb_completed = False, sb_total_results = 0, sb_total_errors = 0,
                         sb_errors = [] \<rparr>"
    by (simp add: job_status_def new_job_def last10_def)
  have begun: "runner_begin fresh_id ?sys'
      = sys\<lparr>sys_registry := (sys_registry sys)(fresh_id \<mapsto> ?j\<lparr>status := ''running''\<rparr>),
             sys_threads := (sys_threads sys)(fresh_id \<mapsto> Begun)\<rparr>"
    by (simp add: runner_begin_def)
  have second: "job_status (sys_registry (runner_begin fresh_id ?sys')) fresh_id =
             Status_Ok \<lparr> sb_job_id = fresh_id, sb_status = ''running'',
                         sb_progress = \<lparr> current_competitor = '''',
                                         total_competitors = length (submitted_urls data),
                                         completed_competitors = 0, current_vdp = 0,
                                         total_vdps = 0, processed_vdps = 0 \<rparr>,
                         sb_completed = False, sb_total_results = 0, sb_total_errors = 0,
                         sb_errors = [] \<rparr>"
    unfolding begun by (simp add: job_status_def new_job_def last10_def)
  have third: "sys_registry (runner_finish env fresh_id (runner_begin fresh_id ?sys')) fresh_id
             = Some (fst (run_analysis env ?j (sys_world sys) (sys_files sys)))"
    unfolding begun by (simp add: runner_finish_def run_analysis_running split: prod.splits)
  from start fields first second third
  show "\<exists>j sys'. start_analysis data fresh_id sys = (Started fresh_id, sys')
         \<and> sys' = sys\<lparr>sys_registry := (sys_registry sys)(fresh_id \<mapsto> j),
                       sys_threads := (sys_threads sys)(fresh_id \<mapsto> Ready)\<rparr>
         \<and> sitemap_urls j = submitted_urls data
         \<and> openai_api_key j = strip (credential data)
         \<and> results j = [] \<and> errors j = []
         \<and> csv_path j = None
         \<and> job_status (sys_registry sys') fresh_id =
             Status_Ok \<lparr> sb_job_id = fresh_id, sb_status = ''starting'',
                         sb_progress = \<lparr> current_competitor = '''',
                                         total_competitors = length (submitted_urls data),
                                         completed_competitors = 0, current_vdp = 0,
                                         total_vdps = 0, processed_vdps = 0 \<rparr>,
                         sb_completed = False, sb_total_results = 0, sb_total_errors = 0,
                         sb_errors = [] \<rparr>
         \<and> job_status (sys_registry (runner_begin fresh_id sys')) fresh_id =
             Status_Ok \<lparr> sb_job_id = fresh_id, sb_status = ''running'',
                         sb_progress = \<lparr> current_competitor = '''',
                                         total_competitors = length (submitted_urls data),
                                         completed_competitors = 0, current_vdp = 0,
                                         total_vdps = 0, processed_vdps = 0 \<rparr>,
                         sb_completed = False, sb_total_results = 0, sb_total_errors = 0,
                         sb_errors = [] \<rparr>
         \<and> sys_registry (runner_finish env fresh_id (runner_begin fresh_id sys')) fresh_id
             = Some (fst (run_analysis env j (sys_world sys) (sys_files sys)))"
    by (intro exI [of _ ?j] exI [of _ ?sys']) (simp only: simp_thms)
qed

text \<open>
  The theorem at two requests to a process that has no job yet: one with a blank key,
  which is rejected, and one with a sitemap URL and a key, which creates the job.
\<close>

theorem start_analysis_contract_witness:
  "blank (credential ex_request_blank_key)
   \<and> (\<exists>msg. start_analysis ex_request_blank_key ''job-1'' ex_system = (Bad_Request msg, ex_system))
   \<and> submitted_urls ex_request \<noteq> [] \<and> \<not> blank (credential ex_request)
   \<and> (\<exists>sys'. start_analysis ex_request ''job-1'' ex_system = (Started ''job-1'', sys')
        \<and> sys_threads sys' ''job-1'' = Some Ready
        \<and> (\<exists>b. job_status (sys_registry sys') ''job-1'' = Status_Ok b
              \<and> sb_status b = ''starting'' \<and> \<not> sb_completed b
              \<and> sb_total_results b = 0 \<and> sb_total_errors b = 0
              \<and> total_competitors (sb_progress b) = 1
              \<and> processed_vdps (sb_progress b) = 0)
        \<and> (\<exists>b. job_status (sys_registry (runner_begin ''job-1'' sys')) ''job-1'' = Status_Ok b
              \<and> sb_status b = ''running'' \<and> \<not> sb_completed b))"
proof -
  have rejected: "\<exists>msg. start_analysis ex_request_blank_key ''job-1'' ex_system = (Bad_Request msg, ex_system)"
    using start_analysis_contract [of ex_request_blank_key "''job-1''" ex_system ex_env]
      ex_request_blank by blast
  have "submitted_urls ex_request \<noteq> [] \<and> \<not> blank (credential ex_request)"
    using ex_request_urls ex_request_key by simp
  with start_analysis_contract [of ex_request "''job-1''" ex_system ex_env]
  obtain j sys' where acc: "start_analysis ex_request ''job-1'' ex_system = (Started ''job-1'', sys')"
    "sys' = ex_system\<lparr>sys_registry := (sys_registry ex_system)(''job-1'' \<mapsto> j),
                       sys_threads := (sys_threads ex_system)(''job-1'' \<mapsto> Ready)\<rparr>"
    "job_status (sys_registry sys') ''job-1'' =
             Status_Ok \<lparr> sb_job_id = ''job-1'', sb_status = ''starting'',
                         sb_progress = \<lparr> current_competitor = '''',
                                         total_competitors = length (submitted_urls ex_request),
                                         completed_competitors = 0, current_vdp = 0,
                                         total_vdps = 0, processed_vdps = 0 \<rparr>,
                         sb_completed = False, sb_total_results = 0, sb_total_errors = 0,
                         sb_errors = [] \<rparr>"
    "job_status (sys_registry (runner_begin ''job-1'' sys')) ''job-1'' =
             Status_Ok \<lparr> sb_job_id = ''job-1'', sb_status = ''running'',
                         sb_progress = \<lparr> current_competitor = '''',
                                         total_competitors = length (submitted_urls ex_request),
                                         completed_competitors = 0, current_vdp = 0,
                                         total_vdps = 0, processed_vdps = 0 \<rparr>,
                         sb_completed = False, sb_total_results = 0, sb_total_errors = 0,
                         sb_errors = [] \<rparr>"
    by blast
  from acc(2) have "sys_threads sys' ''job-1'' = Some Ready" by simp
  with acc(1,3,4) rejected ex_request_blank ex_request_key ex_request_urls show ?thesis
    by simp
qed

text \<open>
  Claim C5 as stated asks for zero progress counters and for the status \<open>starting\<close> at
  the status query. A request with one sitemap URL gives a job whose status query shows
  \<open>total_competitors = 1\<close>, and once the runner thread has taken its first step the
  query shows the status \<open>running\<close>.
\<close>

theorem start_analysis_counters_counterexample:
  "\<exists>sys' b b'. start_analysis ex_request ''job-1'' ex_system = (Started ''job-1'', sys')
        \<and> job_status (sys_registry sys') ''job-1'' = Status_Ok b
        \<and> total_competitors (sb_progress b) = 1
        \<and> total_competitors (sb_progress b) \<noteq> 0
        \<and> job_status (sys_registry (runner_begin ''job-1'' sys')) ''job-1'' = Status_Ok b'
        \<and> sb_status b' = ''running''
        \<and> sb_status b' \<noteq> ''starting''"
proof -
  have key: "get_field ex_request ''openai_api_key'' = ''sk-test''"
    by (simp add: ex_request_def get_field_def strip_def is_space_def whitespace_def)
  show ?thesis
    by (simp add: start_analysis_def Let_def ex_request_urls key new_job_def job_status_def
          runner_begin_def ex_system_def)
qed

text \<open>
  Claim C6. The status query answers \<open>Not_Found\<close> for an unknown identifier. For a known
  one it returns the status text, the progress structure, the completed flag, the number
  of results, the number of errors and a list of errors: all of them when there are at
  most ten, and otherwise exactly ten, which are the end of the error list in insertion
  order.
\<close>

theorem job_status_query:
  "(reg jid = None \<longrightarrow> job_status reg jid = Not_Found) \<and>
   (reg jid = Some j \<longrightarrow>
      (\<exists>b. job_status reg jid = Status_Ok b
         \<and> sb_status b = status j \<and> sb_progress b = progress j
         \<and> sb_completed b = completed j
         \<and> sb_total_results b = length (results j)
         \<and> sb_total_errors b = length (errors j)
         \<and> (length (errors j) \<le> 10 \<longrightarrow> sb_errors b = errors j)
         \<and> (10 < length (errors j) \<longrightarrow>
              length (sb_errors b) = 10 \<and> (\<exists>older. errors j = older @ sb_errors b))))"
proof (intro conjI impI)
  assume "reg jid = None"
  then show "job_status reg jid = Not_Found" by (simp add: job_status_def)
next
  assume some: "reg jid = Some j"
  let ?b = "\<lparr> sb_job_id = jid, sb_status = status j, sb_progress = progress j,
              sb_completed = completed j, sb_total_results = length (results j),
              sb_total_errors = length (errors j), sb_errors = last10 (errors j) \<rparr>"
  have "job_status reg jid = Status_Ok ?b" using some by (simp add: job_status_def)
  moreover have "10 < length (errors j) \<longrightarrow> (\<exists>older. errors j = older @ last10 (errors j))"
    using last10_suffix [of "errors j"] by metis
  ultimately show "\<exists>b. job_status reg jid = Status_Ok b
         \<and> sb_status b = status j \<and> sb_progress b = progress j
         \<and> sb_completed b = completed j
         \<and> sb_total_results b = length (results j)
         \<and> sb_total_errors b = length (errors j)
         \<and> (length (errors j) \<le> 10 \<longrightarrow> sb_errors b = errors j)
         \<and> (10 < length (errors j) \<longrightarrow>
              length (sb_errors b) = 10 \<and> (\<exists>older. errors j = older @ sb_errors b))"
    by (intro exI [of _ ?b]) (simp add: last10_short last10_long)
qed

text \<open>The theorem at a registry holding one job with twelve errors.\<close>

theorem job_status_query_witness:
  "job_status [''job-1'' \<mapsto> ex_job_12_errors] ''job-2'' = Not_Found
   \<and> (\<exists>b. job_status [''job-1'' \<mapsto> ex_job_12_errors] ''job-1'' = Status_Ok b
        \<and> sb_total_errors b = 12
        \<and> sb_errors b = [''e3'', ''e4'', ''e5'', ''e6'', ''e7'', ''e8'', ''e9'', ''e10'', ''e11'', ''e12''])"
  using job_status_query [of "[''job-1'' \<mapsto> ex_job_12_errors]" "''job-2''"]
    job_status_query [of "[''job-1'' \<mapsto> ex_job_12_errors]" "''job-1''" ex_job_12_errors]
  by (simp add: ex_job_12_errors_def new_job_def job_status_def last10_def)

text \<open>
  Claim C8. The status response does not depend on the credential: two registries that
  differ only in the \<open>openai_api_key\<close> of one job give the same response to every status
  query.
\<close>

theorem status_hides_credential:
  "job_status (reg(jid \<mapsto> j\<lparr>openai_api_key := k1\<rparr>)) q
     = job_status (reg(jid \<mapsto> j\<lparr>openai_api_key := k2\<rparr>)) q"
  by (simp add: job_status_def)

section \<open>The page cap of the sitemap parser\<close>

lemma collect_vdps_unlimited:
  "limit = None \<or> limit = Some 0 \<Longrightarrow> collect_vdps limit es acc = acc @ matching_urls es"
proof (induction es arbitrary: acc)
  case Nil
  then show ?case by simp
next
  case (Cons e es)
  then show ?case
    by (cases e) (auto simp: limit_reached_def Let_def)
qed

lemma collect_vdps_limited:
  "0 < k \<Longrightarrow> int (length acc) < k \<Longrightarrow>
   collect_vdps (Some k) es acc = acc @ take (nat k - length acc) (matching_urls es)"
proof (induction es arbitrary: acc)
  case Nil
  then show ?case by simp
next
  case (Cons e es)
  show ?case
  proof (cases e)
    case None
    with Cons show ?thesis by simp
  next
    case (Some url)
    show ?thesis
    proof (cases "url \<noteq> [] \<and> is_new_nissan_vdp url")
      case False
      with Some Cons show ?thesis by auto
    next
      case True
      show ?thesis
      proof (cases "limit_reached (Some k) (acc @ [url])")
        case reached: True
        then have "nat k - length acc = 1"
          using Cons.prems by (simp add: limit_reached_def)
        with True Some reached show ?thesis by (simp add: Let_def)
      next
        case not_reached: False
        then have lt: "int (length (acc @ [url])) < k"
          using Cons.prems by (simp add: limit_reached_def)
        have "nat k - length acc = Suc (nat k - length (acc @ [url]))"
          using lt by simp
        with True Some not_reached Cons.IH [OF Cons.prems(1) lt] show ?thesis
          by (simp add: Let_def)
      qed
    qed
  qed
qed

lemma ex_env_local:
  "client_init ex_env k = None" "export_io ex_env p = None"
  "client_init ex_env_no_disk k = None" "export_io ex_env_no_disk p = Some ''Permission denied''"
  "client_init ex_env_no_pages k = None" "export_io ex_env_no_pages p = None"
  "get_sitemap ex_env ex_sitemap w = (Inr ex_doc, w)"
  "client_init ex_env_elsewhere k = None" "export_io ex_env_elsewhere p = None"
  "cwd ex_env_no_pages = ''/srv/app''" "root_path ex_env_no_pages = ''/srv/app''"
  "cwd ex_env_elsewhere = ''/srv''" "root_path ex_env_elsewhere = ''/srv/app''"
  by (simp_all add: ex_env_def ex_env_no_disk_def ex_env_no_pages_def ex_env_elsewhere_def
        ex_sitemap_def ex_sitemap_2_def)

lemma ex_matching:
  "matching_urls (ns_locs ex_doc) = [ex_page ''1'', ex_page ''2'', ex_page ''3'', ex_page ''4'']"
  "ns_locs ex_doc \<noteq> []"
  by code_simp+

text \<open>
  Claim C10. A limit of 0 or \<open>None\<close> switches the cap off: \<open>parse_sitemap\<close> then returns
  every accepted page URL of the sitemap, in document order. With a positive limit \<open>k\<close>
  it returns the first \<open>k\<close> accepted URLs in document order, so at most \<open>k\<close> of them.
\<close>

theorem parse_sitemap_limit:
  "get_sitemap env sitemap_url w = (Inr doc, w') \<Longrightarrow>
   locs = (if ns_locs doc = [] then plain_locs doc else ns_locs doc) \<Longrightarrow>
   parse_sitemap env (Some 0) sitemap_url w = (Inr (matching_urls locs), w')
   \<and> parse_sitemap env None sitemap_url w = (Inr (matching_urls locs), w')
   \<and> (0 < k \<longrightarrow>
        parse_sitemap env (Some k) sitemap_url w = (Inr (take (nat k) (matching_urls locs)), w')
        \<and> int (length (take (nat k) (matching_urls locs))) \<le> k)"
  using collect_vdps_unlimited [of "Some 0" _ "[]"] collect_vdps_unlimited [of None _ "[]"]
    collect_vdps_limited [of k "[]"]
  by (auto simp: parse_sitemap_def)

text \<open>The theorem at the example sitemap, which lists four accepted pages.\<close>

theorem parse_sitemap_limit_witness:
  "get_sitemap ex_env ex_sitemap () = (Inr ex_doc, ())
   \<and> parse_sitemap ex_env (Some 0) ex_sitemap ()
       = (Inr [ex_page ''1'', ex_page ''2'', ex_page ''3'', ex_page ''4''], ())
   \<and> parse_sitemap ex_env None ex_sitemap ()
       = (Inr [ex_page ''1'', ex_page ''2'', ex_page ''3'', ex_page ''4''], ())
   \<and> parse_sitemap ex_env (Some 3) ex_sitemap ()
       = (Inr [ex_page ''1'', ex_page ''2'', ex_page ''3''], ())"
proof -
  have doc: "get_sitemap ex_env ex_sitemap () = (Inr ex_doc, ())"
    by (simp add: ex_env_local)
  have locs: "ns_locs ex_doc = (if ns_locs ex_doc = [] then plain_locs ex_doc else ns_locs ex_doc)"
    by (simp add: ex_matching)
  from parse_sitemap_limit [OF doc locs, of 3] doc show ?thesis
    by (simp add: ex_matching)
qed

section \<open>The fields returned by the extractor\<close>

















section \<open>The loops of the runner\<close>

subsection \<open>One page\<close>

lemma same_identity_refl: "same_identity j j"
  by (simp add: same_identity_def)

lemma same_identity_trans: "same_identity a b \<Longrightarrow> same_identity b c \<Longrightarrow> same_identity a c"
  by (simp add: same_identity_def)

lemma process_vdp_failure:
  assumes "page_result env (openai_api_key j) u w = (Inl e, w1)"
  shows "process_vdp env name n i u (j, w) =
           (add_error (''Error processing '' @ u @ '': '' @ e)
              (j\<lparr>progress := (progress j)\<lparr>current_vdp := i\<rparr>,
                 status := ''Processing '' @ name @ '' - VDP '' @ str_nat i @ ''/'' @ str_nat n\<rparr>),
            w1)"
  using assms by (simp add: process_vdp_def Let_def)

lemma process_vdp_success:
  assumes "page_result env (openai_api_key j) u w = (Inr row, w1)"
  shows "process_vdp env name n i u (j, w) =
           ((add_result row
              (j\<lparr>progress := (progress j)\<lparr>current_vdp := i\<rparr>,
                 status := ''Processing '' @ name @ '' - VDP '' @ str_nat i @ ''/'' @ str_nat n\<rparr>))
              \<lparr>progress := (progress j)\<lparr>current_vdp := i,
                                           processed_vdps := processed_vdps (progress j) + 1\<rparr>\<rparr>,
            w1)"
  using assms by (simp add: process_vdp_def Let_def add_result_def)

lemma process_vdp_step:
  assumes "page_result env (openai_api_key j) u w = (r, w1)"
      and "process_vdp env name n i u (j, w) = (j', w')"
  shows "w' = w1"
    and "same_identity j j'"
    and "results j' = results j @ rows_of [r]"
    and "errors j' = errors j @ page_errors_of [u] [r]"
    and "processed_vdps (progress j') = processed_vdps (progress j) + length (rows_of [r])"
  using assms
  by (cases r; simp add: process_vdp_def Let_def add_result_def add_error_def same_identity_def;
      fastforce)+

subsection \<open>The pages of one sitemap\<close>

lemma process_vdps_run:
  "process_vdps env name n i urls (j, w) = (j', w') \<Longrightarrow>
   same_identity j j'
   \<and> results j' = results j @ rows_of (page_outcomes env (openai_api_key j) urls w)
   \<and> errors j' = errors j @ page_errors_of urls (page_outcomes env (openai_api_key j) urls w)
   \<and> processed_vdps (progress j')
       = processed_vdps (progress j) + length (rows_of (page_outcomes env (openai_api_key j) urls w))"
proof (induction urls arbitrary: i j w)
  case Nil
  then show ?case by (simp add: same_identity_refl)
next
  case (Cons u urls)
  obtain r w1 where pr: "page_result env (openai_api_key j) u w = (r, w1)"
    by (cases "page_result env (openai_api_key j) u w")
  obtain j1 w1' where pv: "process_vdp env name n i u (j, w) = (j1, w1')"
    by (cases "process_vdp env name n i u (j, w)")
  note step = process_vdp_step [OF pr pv]
  from Cons.prems pv step(1) have rest: "process_vdps env name n (Suc i) urls (j1, w1) = (j', w')"
    by simp
  have key: "openai_api_key j1 = openai_api_key j"
    using step(2) by (simp add: same_identity_def)
  from Cons.IH [OF rest] step pr key show ?case
    by (cases r) (auto simp: same_identity_def)
qed

lemma page_outcomes_length: "length (page_outcomes env key urls w) = length urls"
  by (induction urls arbitrary: w) (auto split: prod.splits)

lemma one_outcome_per_page:
  "length os = length urls \<Longrightarrow> length (rows_of os) + length (page_errors_of urls os) = length urls"
proof (induction urls arbitrary: os)
  case Nil
  then show ?case by simp
next
  case (Cons u urls)
  then obtain r os' where os: "os = r # os'" by (cases os) auto
  with Cons.prems have "length os' = length urls" by simp
  from Cons.IH [OF this] os show ?case by (cases r) auto
qed

subsection \<open>Telling the error entries of pages from the others\<close>

lemma sitemap_prefix_excluded: "prefix ''sitemap '' u \<Longrightarrow> \<not> is_new_nissan_vdp u"
proof -
  assume "prefix ''sitemap '' u"
  then obtain t where "u = ''sitemap '' @ t" by (auto simp: prefix_def)
  then have "contains ''sitemap'' (lower u)"
    by (simp add: lower_def lower_char_def ascii_upper_def ascii_lower_def
          latin_upper_def latin_lower_def)
  then show ?thesis
    by (simp add: is_new_nissan_vdp_def Let_def exclude_terms_def)
qed

lemma vdp_entry_not_sitemap:
  assumes "is_new_nissan_vdp u"
  shows "\<not> prefix ''sitemap '' (u @ '': '' @ e)"
proof
  assume "prefix ''sitemap '' (u @ '': '' @ e)"
  then have "prefix ''sitemap '' u \<or> (\<exists>us. ''sitemap '' = u @ us \<and> prefix us ('': '' @ e))"
    by (simp only: prefix_append)
  moreover have "\<not> prefix ''sitemap '' u"
    using assms sitemap_prefix_excluded by blast
  ultimately obtain us where us: "''sitemap '' = u @ us" "prefix us ('': '' @ e)"
    by blast
  have "us \<noteq> []"
  proof
    assume "us = []"
    with us(1) have "prefix ''sitemap '' u" by simp
    with \<open>\<not> prefix ''sitemap '' u\<close> show False by simp
  qed
  with us(2) have "hd us = CHR '':''" by (cases us) auto
  moreover from us(1) \<open>us \<noteq> []\<close> have "hd us \<in> set ''sitemap ''"
    by (metis hd_in_set set_append UnI2)
  ultimately show False by simp
qed

lemma page_entry_is_page_error:
  "is_new_nissan_vdp u \<Longrightarrow> is_page_error (''Error processing '' @ u @ '': '' @ e)"
  using vdp_entry_not_sitemap [of u e] by (simp add: is_page_error_def)

lemma sitemap_entry_not_page_error:
  "\<not> is_page_error (''Error processing sitemap '' @ x)"
  by (simp add: is_page_error_def)

lemma critical_entry_not_page_error:
  "\<not> is_page_error (''Critical error: '' @ x)"
  by (simp add: is_page_error_def)

lemma page_errors_are_page_level:
  "list_all is_new_nissan_vdp urls \<Longrightarrow>
   filter is_page_error (page_errors_of urls os) = page_errors_of urls os"
proof (induction urls arbitrary: os)
  case Nil
  then show ?case by simp
next
  case (Cons u urls)
  show ?case
  proof (cases os)
    case Nil
    then show ?thesis by simp
  next
    case (Cons r os')
    with Cons.prems Cons.IH [of os'] show ?thesis
      by (cases r) (simp_all add: page_entry_is_page_error del: append.simps)
  qed
qed

lemma collect_vdps_are_vdps:
  "list_all is_new_nissan_vdp acc \<Longrightarrow> list_all is_new_nissan_vdp (collect_vdps limit es acc)"
proof (induction es arbitrary: acc)
  case Nil
  then show ?case by simp
next
  case (Cons e es)
  then show ?case by (cases e) (auto simp: Let_def)
qed

lemma parse_sitemap_are_vdps:
  "fst (parse_sitemap env limit u w) = Inr urls \<Longrightarrow> list_all is_new_nissan_vdp urls"
  using collect_vdps_are_vdps [of "[]"]
  by (auto simp: parse_sitemap_def Let_def split: prod.splits sum.splits)

subsection \<open>The sitemaps\<close>

lemma process_sitemap_run:
  assumes "process_sitemap env idx u (j, w) = (j', w')"
  shows "same_identity j j'
   \<and> length (results j') + page_level j'
       = length (results j) + page_level j + length (sitemap_pages env u w)
   \<and> processed_vdps (progress j') + length (results j)
       = processed_vdps (progress j) + length (results j')
   \<and> (\<exists>rs. results j' = results j @ rs) \<and> (\<exists>es. errors j' = errors j @ es)"
proof (cases "extract_competitor_name env u")
  case (Inl e)
  with assms show ?thesis
    by (auto simp: process_sitemap_def sitemap_pages_def add_error_def same_identity_def
          page_level_def sitemap_entry_not_page_error simp del: append.simps)
next
  case (Inr name)
  obtain r w1 where ps: "parse_sitemap env (Some (vdp_limit env)) u w = (r, w1)"
    by (cases "parse_sitemap env (Some (vdp_limit env)) u w")
  show ?thesis
  proof (cases r)
    case (Inl e)
    with assms Inr ps show ?thesis
      by (auto simp: process_sitemap_def sitemap_pages_def add_error_def same_identity_def
            page_level_def sitemap_entry_not_page_error simp del: append.simps)
  next
    case urls: (Inr vdp_urls)
    let ?j0 = "j\<lparr>progress := (progress j)\<lparr>current_competitor := name,
                                              completed_competitors := idx - 1,
                                              current_vdp := 0, total_vdps := 0\<rparr>,
                 status := ''Parsing sitemap for '' @ name,
                 progress := (progress j)\<lparr>current_competitor := name,
                                              completed_competitors := idx - 1,
                                              current_vdp := 0, total_vdps := length vdp_urls\<rparr>\<rparr>"
    obtain j1 w2 where pv: "process_vdps env name (length vdp_urls) 1 vdp_urls (?j0, w1) = (j1, w2)"
      by (cases "process_vdps env name (length vdp_urls) 1 vdp_urls (?j0, w1)")
    from assms Inr ps urls pv
    have j': "j' = j1\<lparr>progress := (progress j1)\<lparr>completed_competitors := idx\<rparr>\<rparr>"
      by (simp add: process_sitemap_def Let_def)
    let ?os = "page_outcomes env (openai_api_key j) vdp_urls w1"
    from process_vdps_run [OF pv]
    have run: "same_identity ?j0 j1"
      "results j1 = results j @ rows_of ?os"
      "errors j1 = errors j @ page_errors_of vdp_urls ?os"
      "processed_vdps (progress j1) = processed_vdps (progress j) + length (rows_of ?os)"
      by simp_all
    have vdps: "list_all is_new_nissan_vdp vdp_urls"
      using parse_sitemap_are_vdps [of env "Some (vdp_limit env)" u w vdp_urls] ps urls by simp
    have pages: "sitemap_pages env u w = vdp_urls"
      using Inr ps urls by (simp add: sitemap_pages_def)
    have count: "length (rows_of ?os) + length (page_errors_of vdp_urls ?os) = length vdp_urls"
      by (rule one_outcome_per_page) (simp add: page_outcomes_length)
    have "page_level j1 = page_level j + length (page_errors_of vdp_urls ?os)"
      by (simp add: page_level_def run(3) page_errors_are_page_level [OF vdps])
    with run count pages j' show ?thesis
      by (auto simp: same_identity_def page_level_def)
  qed
qed

lemma process_sitemaps_run:
  "process_sitemaps env idx urls (j, w) = (j', w') \<Longrightarrow>
   same_identity j j'
   \<and> length (results j') + page_level j'
       = length (results j) + page_level j + length (discovered_pages env idx urls (j, w))
   \<and> processed_vdps (progress j') + length (results j)
       = processed_vdps (progress j) + length (results j')
   \<and> (\<exists>rs. results j' = results j @ rs) \<and> (\<exists>es. errors j' = errors j @ es)"
proof (induction urls arbitrary: idx j w)
  case Nil
  then show ?case by (simp add: same_identity_refl)
next
  case (Cons u urls)
  obtain j1 w1 where ps: "process_sitemap env idx u (j, w) = (j1, w1)"
    by (cases "process_sitemap env idx u (j, w)")
  with Cons.prems have rest: "process_sitemaps env (Suc idx) urls (j1, w1) = (j', w')"
    by simp
  from process_sitemap_run [OF ps] Cons.IH [OF rest] ps show ?case
    by (auto simp: same_identity_def)
qed

subsection \<open>The three ways a run ends\<close>

lemma run_analysis_cases:
  assumes "run_analysis env j w fs = (j', w', fs')"
  obtains (init_failed) e where "client_init env (openai_api_key j) = Some e"
      "j' = critical_error e (j\<lparr>status := ''running''\<rparr>)" "w' = w" "fs' = fs"
  | (export_failed) j1 e where "client_init env (openai_api_key j) = None"
      "process_sitemaps env 1 (sitemap_urls j) (j\<lparr>status := ''running''\<rparr>, w) = (j1, w')"
      "export_io env (''exports/'' @ job_id j @ ''.csv'') = Some e"
      "j' = critical_error e (j1\<lparr>status := ''Generating CSV''\<rparr>)" "fs' = fs"
  | (exported) j1 where "client_init env (openai_api_key j) = None"
      "process_sitemaps env 1 (sitemap_urls j) (j\<lparr>status := ''running''\<rparr>, w) = (j1, w')"
      "export_io env (''exports/'' @ job_id j @ ''.csv'') = None"
      "j' = j1\<lparr>status := ''completed'', csv_path := Some (''exports/'' @ job_id j @ ''.csv''),
               completed := True\<rparr>"
      "fs' = snd (generate_csv env (job_id j) (results j1) fs)"
proof (cases "client_init env (openai_api_key j)")
  case (Some e)
  with assms init_failed show ?thesis by (simp add: run_analysis_def Let_def)
next
  case None
  obtain j1 w1 where loop:
    "process_sitemaps env 1 (sitemap_urls j) (j\<lparr>status := ''running''\<rparr>, w) = (j1, w1)"
    by (cases "process_sitemaps env 1 (sitemap_urls j) (j\<lparr>status := ''running''\<rparr>, w)")
  from process_sitemaps_run [OF loop] have id: "job_id j1 = job_id j"
    by (simp add: same_identity_def)
  show ?thesis
  proof (cases "export_io env (''exports/'' @ job_id j @ ''.csv'')")
    case (Some e)
    with assms None loop id
    have "j' = critical_error e (j1\<lparr>status := ''Generating CSV''\<rparr>)" "w' = w1" "fs' = fs"
      by (auto simp: run_analysis_def Let_def generate_csv_def)
    with None loop Some export_failed [of j1 e] show ?thesis by simp
  next
    case no_error: None
    with assms None loop id
    have "j' = j1\<lparr>status := ''completed'', csv_path := Some (''exports/'' @ job_id j @ ''.csv''),
               completed := True\<rparr>"
      "w' = w1" "fs' = snd (generate_csv env (job_id j) (results j1) fs)"
      by (auto simp: run_analysis_def Let_def generate_csv_def)
    with None loop no_error exported [of j1] show ?thesis by simp
  qed
qed

subsection \<open>What a run records, sitemap by sitemap\<close>

lemma process_vdps_world:
  "snd (process_vdps env name n i urls (j, w)) = pages_world env (openai_api_key j) urls w"
proof (induction urls arbitrary: i j w)
  case Nil
  then show ?case by simp
next
  case (Cons u urls)
  obtain r w1 where pr: "page_result env (openai_api_key j) u w = (r, w1)"
    by (cases "page_result env (openai_api_key j) u w")
  obtain j1 w1' where pv: "process_vdp env name n i u (j, w) = (j1, w1')"
    by (cases "process_vdp env name n i u (j, w)")
  note step = process_vdp_step [OF pr pv]
  have key: "openai_api_key j1 = openai_api_key j"
    using step(2) by (simp add: same_identity_def)
  from Cons.IH [of "Suc i" j1 w1] pv step(1) pr key show ?case
    by simp
qed

lemma process_sitemap_record:
  assumes "process_sitemap env idx u (j, w) = (j', w')"
  shows "results j' = results j @ sitemap_rows env (openai_api_key j) u w
   \<and> errors j' = errors j @ sitemap_errors env (openai_api_key j) u w
   \<and> w' = sitemap_world env (openai_api_key j) u w"
proof (cases "extract_competitor_name env u")
  case (Inl e)
  with assms show ?thesis
    by (auto simp: process_sitemap_def sitemap_rows_def sitemap_errors_def sitemap_world_def
          add_error_def simp del: append.simps)
next
  case (Inr name)
  obtain r w1 where ps: "parse_sitemap env (Some (vdp_limit env)) u w = (r, w1)"
    by (cases "parse_sitemap env (Some (vdp_limit env)) u w")
  show ?thesis
  proof (cases r)
    case (Inl e)
    with assms Inr ps show ?thesis
      by (auto simp: process_sitemap_def sitemap_rows_def sitemap_errors_def sitemap_world_def
            add_error_def simp del: append.simps)
  next
    case urls: (Inr vdp_urls)
    let ?j0 = "j\<lparr>progress := (progress j)\<lparr>current_competitor := name,
                                              completed_competitors := idx - 1,
                                              current_vdp := 0, total_vdps := 0\<rparr>,
                 status := ''Parsing sitemap for '' @ name,
                 progress := (progress j)\<lparr>current_competitor := name,
                                              completed_competitors := idx - 1,
                                              current_vdp := 0, total_vdps := length vdp_urls\<rparr>\<rparr>"
    obtain j1 w2 where pv: "process_vdps env name (length vdp_urls) 1 vdp_urls (?j0, w1) = (j1, w2)"
      by (cases "process_vdps env name (length vdp_urls) 1 vdp_urls (?j0, w1)")
    from assms Inr ps urls pv
    have j': "j' = j1\<lparr>progress := (progress j1)\<lparr>completed_competitors := idx\<rparr>\<rparr>" and w': "w' = w2"
      by (simp_all add: process_sitemap_def Let_def)
    from process_vdps_run [OF pv]
    have run: "results j1 = results j @ rows_of (page_outcomes env (openai_api_key j) vdp_urls w1)"
      "errors j1 = errors j @ page_errors_of vdp_urls (page_outcomes env (openai_api_key j) vdp_urls w1)"
      by simp_all
    from process_vdps_world [of env name "length vdp_urls" 1 vdp_urls ?j0 w1] pv
    have world: "w2 = pages_world env (openai_api_key j) vdp_urls w1" by simp
    from run world j' w' Inr ps urls show ?thesis
      by (simp add: sitemap_rows_def sitemap_errors_def sitemap_world_def)
  qed
qed

lemma process_sitemaps_record:
  "process_sitemaps env idx urls (j, w) = (j', w') \<Longrightarrow>
   results j' = results j @ sources_rows env (openai_api_key j) urls w
   \<and> errors j' = errors j @ sources_errors env (openai_api_key j) urls w"
proof (induction urls arbitrary: idx j w)
  case Nil
  then show ?case by simp
next
  case (Cons u urls)
  obtain j1 w1 where ps: "process_sitemap env idx u (j, w) = (j1, w1)"
    by (cases "process_sitemap env idx u (j, w)")
  with Cons.prems have rest: "process_sitemaps env (Suc idx) urls (j1, w1) = (j', w')"
    by simp
  from process_sitemap_run [OF ps] have key: "openai_api_key j1 = openai_api_key j"
    by (simp add: same_identity_def)
  from process_sitemap_record [OF ps] Cons.IH [OF rest] key show ?case
    by simp
qed

lemma run_analysis_record:
  assumes "client_init env (openai_api_key j) = None"
    and "run_analysis env j w fs = (j', w', fs')"
  shows "results j' = results j @ sources_rows env (openai_api_key j) (sitemap_urls j) w
   \<and> errors j' = errors j @ sources_errors env (openai_api_key j) (sitemap_urls j) w
        @ (case export_io env (''exports/'' @ job_id j @ ''.csv'') of
             None \<Rightarrow> []
           | Some e \<Rightarrow> [''Critical error: '' @ e])"
  using assms(2)
proof (cases rule: run_analysis_cases)
  case (init_failed e)
  with assms(1) show ?thesis by simp
next
  case (export_failed j1 e)
  from process_sitemaps_record [OF export_failed(2)] export_failed(3,4) show ?thesis
    by (simp add: critical_error_def add_error_def)
next
  case (exported j1)
  from process_sitemaps_record [OF exported(2)] exported(3,4) show ?thesis
    by simp
qed

subsection \<open>The example run\<close>

lemma ex_job_2_fields:
  "openai_api_key ex_job_2 = ''sk-test''" "job_id ex_job_2 = ''job-2''"
  "sitemap_urls ex_job_2 = [ex_sitemap, ex_sitemap_2]"
  "results ex_job_2 = []" "errors ex_job_2 = []"
  by (simp_all add: ex_job_2_def new_job_def)

lemma ex_sitemap_parsed:
  "extract_competitor_name ex_env ex_sitemap = Inr ''Gunn Nissan''"
  "parse_sitemap ex_env (Some (vdp_limit ex_env)) ex_sitemap ()
     = (Inr [ex_page ''1'', ex_page ''2'', ex_page ''3''], ())"
  by code_simp+

lemma ex_sitemap_2_parsed:
  "extract_competitor_name ex_env ex_sitemap_2 = Inr ''Gunn Nissan''"
  "parse_sitemap ex_env (Some (vdp_limit ex_env)) ex_sitemap_2 () = (Inr [ex_page ''5''], ())"
  by code_simp+

lemma ex_no_pages_elsewhere:
  "results (fst (run_analysis ex_env_elsewhere ex_job () Map.empty)) = []"
  by code_simp

lemma ex_page_5: "page_result ex_env ''sk-test'' (ex_page ''5'') () = (Inr ex_row_5, ())"
  by code_simp

lemma ex_job_fields:
  "sitemap_urls ex_job = [ex_sitemap]"
  "openai_api_key ex_job = ''sk-test''" "job_id ex_job = ''job-1''"
  "results ex_job = []" "errors ex_job = []" "\<not> completed ex_job" "csv_path ex_job = None"
  "processed_vdps (progress ex_job) = 0"
  by (simp_all add: ex_job_def new_job_def)

lemma ex_page_results:
  "page_result ex_env ''sk-test'' (ex_page ''1'') () = (Inr ex_row_1, ())"
  "page_result ex_env ''sk-test'' (ex_page ''2'') () = (Inl ex_failure_2, ())"
  "page_result ex_env ''sk-test'' (ex_page ''3'') () = (Inr ex_row_3, ())"
  by code_simp+

lemma ex_outcomes:
  "page_outcomes ex_env ''sk-test'' [ex_page ''1'', ex_page ''2'', ex_page ''3''] ()
     = [Inr ex_row_1, Inl ex_failure_2, Inr ex_row_3]"
  by (simp add: ex_page_results)

lemma ex_sources_2:
  "sources_rows ex_env ''sk-test'' [ex_sitemap, ex_sitemap_2] ()
     = [ex_row_1, ex_row_3, ex_row_5]"
  "sources_errors ex_env ''sk-test'' [ex_sitemap, ex_sitemap_2] ()
     = [''Error processing '' @ ex_page ''2'' @ '': '' @ ex_failure_2]"
  by (simp_all add: sitemap_rows_def sitemap_errors_def sitemap_world_def
        ex_sitemap_2_parsed ex_sitemap_parsed ex_page_results ex_page_5)

lemma ex_run: "fst (run_analysis ex_env ex_job () Map.empty) = ex_final_job"
  by code_simp

lemma ex_discovered:
  "run_discovered ex_env ex_job () = [ex_page ''1'', ex_page ''2'', ex_page ''3'']"
  by code_simp

lemma ex_no_pages_results: "results (fst (run_analysis ex_env_no_pages ex_job () Map.empty)) = []"
  by code_simp

section \<open>Properties of a run\<close>

text \<open>
  Claim C1 asks that a run which an exception leaves (the client cannot be built, or the
  export fails) ends with an error status, a critical-error entry, no export path and
  \<open>completed = true\<close>. The handler of \<open>run_analysis\<close> does the first three and leaves
  \<open>completed\<close> as it was, which is false for every job the submission creates: the
  status is \<open>error: \<close> followed by the text of the exception, the last entry of \<open>errors\<close>
  is the critical error, and \<open>csv_path\<close> and \<open>completed\<close> are unchanged.
\<close>

theorem critical_error_not_completed:
  "client_init env (openai_api_key j) = Some e
     \<or> (client_init env (openai_api_key j) = None
         \<and> export_io env (''exports/'' @ job_id j @ ''.csv'') = Some e) \<Longrightarrow>
   run_analysis env j w fs = (j', w', fs') \<Longrightarrow>
   status j' = ''error: '' @ e
   \<and> (\<exists>es. errors j' = errors j @ es @ [''Critical error: '' @ e])
   \<and> csv_path j' = csv_path j
   \<and> completed j' = completed j"
proof -
  assume fails: "client_init env (openai_api_key j) = Some e
     \<or> (client_init env (openai_api_key j) = None
         \<and> export_io env (''exports/'' @ job_id j @ ''.csv'') = Some e)"
  assume "run_analysis env j w fs = (j', w', fs')"
  then show ?thesis
  proof (cases rule: run_analysis_cases)
    case (init_failed e')
    with fails show ?thesis
      by (simp add: critical_error_def add_error_def)
  next
    case (export_failed j1 e')
    from process_sitemaps_run [OF export_failed(2)]
    obtain es where "same_identity (j\<lparr>status := ''running''\<rparr>) j1" "errors j1 = errors j @ es"
      by auto
    with fails export_failed show ?thesis
      by (simp add: critical_error_def add_error_def same_identity_def)
  next
    case (exported j1)
    with fails show ?thesis by simp
  qed
qed

text \<open>The theorem at the example job on a disk that refuses the export.\<close>

theorem critical_error_not_completed_witness:
  "client_init ex_env_no_disk (openai_api_key ex_job) = None
   \<and> export_io ex_env_no_disk (''exports/'' @ job_id ex_job @ ''.csv'') = Some ''Permission denied''
   \<and> status (fst (run_analysis ex_env_no_disk ex_job () Map.empty)) = ''error: Permission denied''
   \<and> (\<exists>es. errors (fst (run_analysis ex_env_no_disk ex_job () Map.empty))
            = es @ [''Critical error: Permission denied''])
   \<and> csv_path (fst (run_analysis ex_env_no_disk ex_job () Map.empty)) = None
   \<and> \<not> completed (fst (run_analysis ex_env_no_disk ex_job () Map.empty))"
proof -
  obtain j' w' fs' where run: "run_analysis ex_env_no_disk ex_job () Map.empty = (j', w', fs')"
    by (cases "run_analysis ex_env_no_disk ex_job () Map.empty")
  have "client_init ex_env_no_disk (openai_api_key ex_job) = Some ''Permission denied''
     \<or> (client_init ex_env_no_disk (openai_api_key ex_job) = None
         \<and> export_io ex_env_no_disk (''exports/'' @ job_id ex_job @ ''.csv'') = Some ''Permission denied'')"
    by (simp add: ex_env_local)
  from critical_error_not_completed [OF this run] run show ?thesis
    by (simp add: ex_env_local ex_job_fields)
qed

text \<open>
  Claim C2. The loop over the pages of a sitemap handles every page of the list: a page
  whose fetch or extraction raises adds exactly one entry to \<open>errors\<close>, which names the
  URL of the page, and a page that succeeds adds its row to \<open>results\<close>, both in the
  order of the list. With three pages of which only the second fails, \<open>results\<close> gains
  the rows of the first and the third and \<open>errors\<close> gains the one entry of the second.
  The run gives every sitemap of the job, in order, to this loop with the pages that
  the sitemap yields: when the client is built, \<open>results\<close> at the end is the rows of the
  successful pages of all sitemaps, and \<open>errors\<close> is the entries of the failed pages and
  of the failed sitemaps, followed only by the critical error if the export fails. So
  for a job with one sitemap that yields three pages of which the second fails, the
  run ends with the rows of the first and the third page and the one entry of the
  second. Whatever the pages do, a run whose client is built and whose export succeeds
  ends completed.
\<close>

theorem page_failures_isolated:
  "(process_vdps env name n i urls (j, w) = (j', w') \<longrightarrow>
      length (page_outcomes env (openai_api_key j) urls w) = length urls
      \<and> results j' = results j @ rows_of (page_outcomes env (openai_api_key j) urls w)
      \<and> errors j' = errors j
            @ page_errors_of urls (page_outcomes env (openai_api_key j) urls w))
   \<and> (page_outcomes env (openai_api_key j) [p1, p2, p3] w = [Inr r1, Inl e, Inr r3] \<longrightarrow>
        results (fst (process_vdps env name n i [p1, p2, p3] (j, w))) = results j @ [r1, r3]
        \<and> errors (fst (process_vdps env name n i [p1, p2, p3] (j, w)))
            = errors j @ [''Error processing '' @ p2 @ '': '' @ e])
   \<and> (client_init env (openai_api_key j) = None
        \<and> export_io env (''exports/'' @ job_id j @ ''.csv'') = None \<longrightarrow>
        completed (fst (run_analysis env j w fs))
        \<and> status (fst (run_analysis env j w fs)) = ''completed'')
   \<and> (client_init env (openai_api_key j) = None \<longrightarrow>
        results (fst (run_analysis env j w fs))
          = results j @ sources_rows env (openai_api_key j) (sitemap_urls j) w
        \<and> errors (fst (run_analysis env j w fs))
          = errors j @ sources_errors env (openai_api_key j) (sitemap_urls j) w
              @ (case export_io env (''exports/'' @ job_id j @ ''.csv'') of
                   None \<Rightarrow> []
                 | Some x \<Rightarrow> [''Critical error: '' @ x]))
   \<and> (client_init env (openai_api_key j) = None
        \<and> export_io env (''exports/'' @ job_id j @ ''.csv'') = None
        \<and> sitemap_urls j = [s]
        \<and> extract_competitor_name env s = Inr c
        \<and> parse_sitemap env (Some (vdp_limit env)) s w = (Inr [p1, p2, p3], w1)
        \<and> page_outcomes env (openai_api_key j) [p1, p2, p3] w1 = [Inr r1, Inl e, Inr r3] \<longrightarrow>
        results (fst (run_analysis env j w fs)) = results j @ [r1, r3]
        \<and> errors (fst (run_analysis env j w fs))
            = errors j @ [''Error processing '' @ p2 @ '': '' @ e])"
proof (intro conjI impI)
  assume run: "process_vdps env name n i urls (j, w) = (j', w')"
  show "length (page_outcomes env (openai_api_key j) urls w) = length urls"
    by (rule page_outcomes_length)
  from process_vdps_run [OF run]
  show "results j' = results j @ rows_of (page_outcomes env (openai_api_key j) urls w)"
    and "errors j' = errors j @ page_errors_of urls (page_outcomes env (openai_api_key j) urls w)"
    by simp_all
next
  assume os: "page_outcomes env (openai_api_key j) [p1, p2, p3] w = [Inr r1, Inl e, Inr r3]"
  obtain j' w' where run: "process_vdps env name n i [p1, p2, p3] (j, w) = (j', w')"
    by (cases "process_vdps env name n i [p1, p2, p3] (j, w)")
  from process_vdps_run [OF run] os
  show "results (fst (process_vdps env name n i [p1, p2, p3] (j, w))) = results j @ [r1, r3]"
    and "errors (fst (process_vdps env name n i [p1, p2, p3] (j, w)))
            = errors j @ [''Error processing '' @ p2 @ '': '' @ e]"
    by (simp_all add: run del: process_vdps.simps page_outcomes.simps)
next
  assume ok: "client_init env (openai_api_key j) = None
        \<and> export_io env (''exports/'' @ job_id j @ ''.csv'') = None"
  obtain j' w' fs' where run: "run_analysis env j w fs = (j', w', fs')"
    by (cases "run_analysis env j w fs")
  then have "completed j' \<and> status j' = ''completed''"
    using ok by (cases rule: run_analysis_cases) simp_all
  with run show "completed (fst (run_analysis env j w fs))"
    and "status (fst (run_analysis env j w fs)) = ''completed''"
    by simp_all
next
  assume init: "client_init env (openai_api_key j) = None"
  obtain j' w' fs' where run: "run_analysis env j w fs = (j', w', fs')"
    by (cases "run_analysis env j w fs")
  from run_analysis_record [OF init run] run
  show "results (fst (run_analysis env j w fs))
          = results j @ sources_rows env (openai_api_key j) (sitemap_urls j) w"
    and "errors (fst (run_analysis env j w fs))
          = errors j @ sources_errors env (openai_api_key j) (sitemap_urls j) w
              @ (case export_io env (''exports/'' @ job_id j @ ''.csv'') of
                   None \<Rightarrow> []
                 | Some x \<Rightarrow> [''Critical error: '' @ x])"
    by simp_all
next
  assume one: "client_init env (openai_api_key j) = None
        \<and> export_io env (''exports/'' @ job_id j @ ''.csv'') = None
        \<and> sitemap_urls j = [s]
        \<and> extract_competitor_name env s = Inr c
        \<and> parse_sitemap env (Some (vdp_limit env)) s w = (Inr [p1, p2, p3], w1)
        \<and> page_outcomes env (openai_api_key j) [p1, p2, p3] w1 = [Inr r1, Inl e, Inr r3]"
  obtain j' w' fs' where run: "run_analysis env j w fs = (j', w', fs')"
    by (cases "run_analysis env j w fs")
  from one have init: "client_init env (openai_api_key j) = None" by simp
  have rows: "sources_rows env (openai_api_key j) (sitemap_urls j) w = [r1, r3]"
    and errs: "sources_errors env (openai_api_key j) (sitemap_urls j) w
                 = [''Error processing '' @ p2 @ '': '' @ e]"
    using one by (simp_all add: sitemap_rows_def sitemap_errors_def del: page_outcomes.simps)
  from run_analysis_record [OF init run] run rows errs one
  show "results (fst (run_analysis env j w fs)) = results j @ [r1, r3]"
    and "errors (fst (run_analysis env j w fs))
            = errors j @ [''Error processing '' @ p2 @ '': '' @ e]"
    by simp_all
qed

text \<open>
  The theorem at the three pages of the example, the second of which times out, at the
  run of the example job, and at the run of a job with two sitemaps, the second of
  which lists one more page.
\<close>

theorem page_failures_isolated_witness:
  "page_outcomes ex_env (openai_api_key ex_job) [ex_page ''1'', ex_page ''2'', ex_page ''3''] ()
     = [Inr ex_row_1, Inl ex_failure_2, Inr ex_row_3]
   \<and> results (fst (process_vdps ex_env ''Gunn Nissan'' 3 1
                     [ex_page ''1'', ex_page ''2'', ex_page ''3''] (ex_job, ())))
       = [ex_row_1, ex_row_3]
   \<and> errors (fst (process_vdps ex_env ''Gunn Nissan'' 3 1
                    [ex_page ''1'', ex_page ''2'', ex_page ''3''] (ex_job, ())))
       = [''Error processing '' @ ex_page ''2'' @ '': '' @ ex_failure_2]
   \<and> completed (fst (run_analysis ex_env ex_job () Map.empty))
   \<and> status (fst (run_analysis ex_env ex_job () Map.empty)) = ''completed''
   \<and> sitemap_urls ex_job = [ex_sitemap]
   \<and> parse_sitemap ex_env (Some (vdp_limit ex_env)) ex_sitemap ()
       = (Inr [ex_page ''1'', ex_page ''2'', ex_page ''3''], ())
   \<and> results (fst (run_analysis ex_env ex_job () Map.empty)) = [ex_row_1, ex_row_3]
   \<and> errors (fst (run_analysis ex_env ex_job () Map.empty))
       = [''Error processing '' @ ex_page ''2'' @ '': '' @ ex_failure_2]
   \<and> sitemap_urls ex_job_2 = [ex_sitemap, ex_sitemap_2]
   \<and> results (fst (run_analysis ex_env ex_job_2 () Map.empty))
       = [ex_row_1, ex_row_3, ex_row_5]
   \<and> errors (fst (run_analysis ex_env ex_job_2 () Map.empty))
       = [''Error processing '' @ ex_page ''2'' @ '': '' @ ex_failure_2]"
proof -
  have os: "page_outcomes ex_env (openai_api_key ex_job) [ex_page ''1'', ex_page ''2'', ex_page ''3''] ()
     = [Inr ex_row_1, Inl ex_failure_2, Inr ex_row_3]"
    by (simp only: ex_job_fields ex_outcomes)
  have ok: "client_init ex_env (openai_api_key ex_job) = None
        \<and> export_io ex_env (''exports/'' @ job_id ex_job @ ''.csv'') = None"
    by (simp add: ex_env_local)
  have one: "client_init ex_env (openai_api_key ex_job) = None
        \<and> export_io ex_env (''exports/'' @ job_id ex_job @ ''.csv'') = None
        \<and> sitemap_urls ex_job = [ex_sitemap]
        \<and> extract_competitor_name ex_env ex_sitemap = Inr ''Gunn Nissan''
        \<and> parse_sitemap ex_env (Some (vdp_limit ex_env)) ex_sitemap ()
            = (Inr [ex_page ''1'', ex_page ''2'', ex_page ''3''], ())
        \<and> page_outcomes ex_env (openai_api_key ex_job) [ex_page ''1'', ex_page ''2'', ex_page ''3''] ()
            = [Inr ex_row_1, Inl ex_failure_2, Inr ex_row_3]"
    using os ok ex_sitemap_parsed by (simp add: ex_job_fields)
  note first = page_failures_isolated [where env = ex_env and name = "''Gunn Nissan''"
      and n = 3 and i = 1 and j = ex_job and w = "()" and ?p1.0 = "ex_page ''1''"
      and ?p2.0 = "ex_page ''2''" and ?p3.0 = "ex_page ''3''" and ?r1.0 = ex_row_1
      and e = ex_failure_2 and ?r3.0 = ex_row_3 and fs = Map.empty and s = ex_sitemap
      and c = "''Gunn Nissan''" and ?w1.0 = "()"]
  have loop: "results (fst (process_vdps ex_env ''Gunn Nissan'' 3 1
                     [ex_page ''1'', ex_page ''2'', ex_page ''3''] (ex_job, ())))
                = results ex_job @ [ex_row_1, ex_row_3]"
    "errors (fst (process_vdps ex_env ''Gunn Nissan'' 3 1
                    [ex_page ''1'', ex_page ''2'', ex_page ''3''] (ex_job, ())))
       = errors ex_job @ [''Error processing '' @ ex_page ''2'' @ '': '' @ ex_failure_2]"
    using first os by blast+
  have finished: "completed (fst (run_analysis ex_env ex_job () Map.empty))"
    "status (fst (run_analysis ex_env ex_job () Map.empty)) = ''completed''"
    using first ok by blast+
  have run: "results (fst (run_analysis ex_env ex_job () Map.empty))
               = results ex_job @ [ex_row_1, ex_row_3]"
    "errors (fst (run_analysis ex_env ex_job () Map.empty))
       = errors ex_job @ [''Error processing '' @ ex_page ''2'' @ '': '' @ ex_failure_2]"
    using first one by blast+
  note second = page_failures_isolated [where env = ex_env and j = ex_job_2 and w = "()"
      and fs = Map.empty]
  have init2: "client_init ex_env (openai_api_key ex_job_2) = None"
    by (simp add: ex_env_local)
  have raw: "results (fst (run_analysis ex_env ex_job_2 () Map.empty))
       = results ex_job_2
           @ sources_rows ex_env (openai_api_key ex_job_2) (sitemap_urls ex_job_2) ()"
    "errors (fst (run_analysis ex_env ex_job_2 () Map.empty))
       = errors ex_job_2
           @ sources_errors ex_env (openai_api_key ex_job_2) (sitemap_urls ex_job_2) ()
           @ (case export_io ex_env (''exports/'' @ job_id ex_job_2 @ ''.csv'') of
                None \<Rightarrow> []
              | Some x \<Rightarrow> [''Critical error: '' @ x])"
    using second init2 by blast+
  have two: "results (fst (run_analysis ex_env ex_job_2 () Map.empty))
       = [ex_row_1, ex_row_3, ex_row_5]"
    "errors (fst (run_analysis ex_env ex_job_2 () Map.empty))
       = [''Error processing '' @ ex_page ''2'' @ '': '' @ ex_failure_2]"
    using raw unfolding ex_job_2_fields ex_sources_2
    by (simp_all add: ex_env_local)
  have first_loop: "results (fst (process_vdps ex_env ''Gunn Nissan'' 3 1
                     [ex_page ''1'', ex_page ''2'', ex_page ''3''] (ex_job, ())))
                = [ex_row_1, ex_row_3]"
    "errors (fst (process_vdps ex_env ''Gunn Nissan'' 3 1
                    [ex_page ''1'', ex_page ''2'', ex_page ''3''] (ex_job, ())))
       = [''Error processing '' @ ex_page ''2'' @ '': '' @ ex_failure_2]"
    using loop by (simp_all only: ex_job_fields append_Nil)
  have first_run: "results (fst (run_analysis ex_env ex_job () Map.empty))
               = [ex_row_1, ex_row_3]"
    "errors (fst (run_analysis ex_env ex_job () Map.empty))
       = [''Error processing '' @ ex_page ''2'' @ '': '' @ ex_failure_2]"
    using run by (simp_all only: ex_job_fields append_Nil)
  show ?thesis
    by (intro conjI os first_loop finished first_run two ex_job_fields(1) ex_job_2_fields(3)
          ex_sitemap_parsed(2))
qed

text \<open>
  Claim C3. When the run of a new job has ended, the number of results plus the number
  of error entries written for pages equals the number of pages discovered over all
  sitemaps; so the number of results is at most the number of discovered pages.
\<close>

theorem every_page_one_outcome:
  "run_analysis env (new_job jid urls key) w fs = (j', w', fs') \<Longrightarrow>
   length (results j') + length (filter is_page_error (errors j'))
     = length (run_discovered env (new_job jid urls key) w)
   \<and> length (results j') \<le> length (run_discovered env (new_job jid urls key) w)"
proof -
  assume run: "run_analysis env (new_job jid urls key) w fs = (j', w', fs')"
  let ?j = "new_job jid urls key"
  have start: "results (?j\<lparr>status := ''running''\<rparr>) = []" "page_level (?j\<lparr>status := ''running''\<rparr>) = 0"
    by (simp_all add: new_job_def page_level_def)
  from run have "length (results j') + page_level j' = length (run_discovered env ?j w)"
  proof (cases rule: run_analysis_cases)
    case (init_failed e)
    then show ?thesis
      by (simp add: run_discovered_def critical_error_def add_error_def new_job_def
            page_level_def critical_entry_not_page_error del: append.simps)
  next
    case (export_failed j1 e)
    from process_sitemaps_run [OF export_failed(2)] start export_failed(1,4) show ?thesis
      by (simp add: run_discovered_def critical_error_def add_error_def
            page_level_def critical_entry_not_page_error del: append.simps)
  next
    case (exported j1)
    from process_sitemaps_run [OF exported(2)] start exported(1,4) show ?thesis
      by (simp add: run_discovered_def page_level_def)
  qed
  then show ?thesis by (simp add: page_level_def)
qed

text \<open>The theorem at the example run: three pages, two results and one page error.\<close>

theorem every_page_one_outcome_witness:
  "length (run_discovered ex_env (new_job ''job-1'' [ex_sitemap] ''sk-test'') ()) = 3
   \<and> length (results (fst (run_analysis ex_env (new_job ''job-1'' [ex_sitemap] ''sk-test'') () Map.empty)))
       + length (filter is_page_error
           (errors (fst (run_analysis ex_env (new_job ''job-1'' [ex_sitemap] ''sk-test'') () Map.empty))))
       = 3"
proof -
  obtain j' w' fs' where
    run: "run_analysis ex_env (new_job ''job-1'' [ex_sitemap] ''sk-test'') () Map.empty = (j', w', fs')"
    by (cases "run_analysis ex_env (new_job ''job-1'' [ex_sitemap] ''sk-test'') () Map.empty")
  have "length (run_discovered ex_env (new_job ''job-1'' [ex_sitemap] ''sk-test'') ()) = 3"
    using ex_discovered by (simp add: ex_job_def)
  with every_page_one_outcome [OF run] run show ?thesis by simp
qed

text \<open>
  Claim C4, as the code has it. A page whose processing fails adds exactly one entry to
  \<open>errors\<close> and leaves \<open>results\<close> and the counter \<open>processed_vdps\<close> as they were; a page
  that succeeds adds its row and adds one to the counter. The counter therefore counts
  the successful pages: at the end of the run of a new job it equals the number of
  results.
\<close>

theorem failed_page_not_counted:
  "(page_result env (openai_api_key j) u w = (Inl e, w1) \<longrightarrow>
      errors (fst (process_vdp env name n i u (j, w)))
        = errors j @ [''Error processing '' @ u @ '': '' @ e]
      \<and> results (fst (process_vdp env name n i u (j, w))) = results j
      \<and> processed_vdps (progress (fst (process_vdp env name n i u (j, w))))
          = processed_vdps (progress j))
   \<and> (page_result env (openai_api_key j) u w = (Inr row, w1) \<longrightarrow>
      errors (fst (process_vdp env name n i u (j, w))) = errors j
      \<and> results (fst (process_vdp env name n i u (j, w))) = results j @ [row]
      \<and> processed_vdps (progress (fst (process_vdp env name n i u (j, w))))
          = processed_vdps (progress j) + 1)
   \<and> processed_vdps (progress (fst (run_analysis env (new_job jid urls key) w fs)))
       = length (results (fst (run_analysis env (new_job jid urls key) w fs)))"
proof (intro conjI impI)
  assume "page_result env (openai_api_key j) u w = (Inl e, w1)"
  note step = process_vdp_failure [OF this, of name n i]
  show "errors (fst (process_vdp env name n i u (j, w)))
        = errors j @ [''Error processing '' @ u @ '': '' @ e]"
    and "results (fst (process_vdp env name n i u (j, w))) = results j"
    and "processed_vdps (progress (fst (process_vdp env name n i u (j, w))))
          = processed_vdps (progress j)"
    by (simp_all add: step add_error_def)
next
  assume "page_result env (openai_api_key j) u w = (Inr row, w1)"
  note step = process_vdp_success [OF this, of name n i]
  show "errors (fst (process_vdp env name n i u (j, w))) = errors j"
    and "results (fst (process_vdp env name n i u (j, w))) = results j @ [row]"
    and "processed_vdps (progress (fst (process_vdp env name n i u (j, w))))
          = processed_vdps (progress j) + 1"
    by (simp_all add: step add_result_def)
next
  let ?j = "new_job jid urls key"
  obtain j' w' fs' where run: "run_analysis env ?j w fs = (j', w', fs')"
    by (cases "run_analysis env ?j w fs")
  have start: "results (?j\<lparr>status := ''running''\<rparr>) = []"
    "processed_vdps (progress (?j\<lparr>status := ''running''\<rparr>)) = 0"
    by (simp_all add: new_job_def)
  from run have "processed_vdps (progress j') = length (results j')"
  proof (cases rule: run_analysis_cases)
    case (init_failed e)
    then show ?thesis by (simp add: critical_error_def add_error_def new_job_def)
  next
    case (export_failed j1 e)
    from process_sitemaps_run [OF export_failed(2)] start export_failed(4) show ?thesis
      by (simp add: critical_error_def add_error_def)
  next
    case (exported j1)
    from process_sitemaps_run [OF exported(2)] start exported(4) show ?thesis
      by simp
  qed
  with run show "processed_vdps (progress (fst (run_analysis env ?j w fs)))
       = length (results (fst (run_analysis env ?j w fs)))"
    by simp
qed

text \<open>The theorem at the second and the first page of the example.\<close>

theorem failed_page_not_counted_witness:
  "page_result ex_env (openai_api_key ex_job) (ex_page ''2'') () = (Inl ex_failure_2, ())
   \<and> errors (fst (process_vdp ex_env ''Gunn Nissan'' 3 2 (ex_page ''2'') (ex_job, ())))
       = [''Error processing '' @ ex_page ''2'' @ '': '' @ ex_failure_2]
   \<and> processed_vdps (progress (fst (process_vdp ex_env ''Gunn Nissan'' 3 2 (ex_page ''2'') (ex_job, ())))) = 0
   \<and> page_result ex_env (openai_api_key ex_job) (ex_page ''1'') () = (Inr ex_row_1, ())
   \<and> results (fst (process_vdp ex_env ''Gunn Nissan'' 3 1 (ex_page ''1'') (ex_job, ()))) = [ex_row_1]
   \<and> processed_vdps (progress (fst (process_vdp ex_env ''Gunn Nissan'' 3 1 (ex_page ''1'') (ex_job, ())))) = 1
   \<and> processed_vdps (progress (fst (run_analysis ex_env (new_job ''job-1'' [ex_sitemap] ''sk-test'') () Map.empty)))
       = length (results (fst (run_analysis ex_env (new_job ''job-1'' [ex_sitemap] ''sk-test'') () Map.empty)))"
proof -
  have p2: "page_result ex_env (openai_api_key ex_job) (ex_page ''2'') () = (Inl ex_failure_2, ())"
    and p1: "page_result ex_env (openai_api_key ex_job) (ex_page ''1'') () = (Inr ex_row_1, ())"
    by (simp_all only: ex_job_fields ex_page_results)
  from failed_page_not_counted [of ex_env ex_job "ex_page ''2''" "()" ex_failure_2 "()"
      "''Gunn Nissan''" 3 2 ex_row_1 "''job-1''" "[ex_sitemap]" "''sk-test''" Map.empty] p2
    failed_page_not_counted [of ex_env ex_job "ex_page ''1''" "()" ex_failure_2 "()"
      "''Gunn Nissan''" 3 1 ex_row_1 "''job-1''" "[ex_sitemap]" "''sk-test''" Map.empty] p1
  show ?thesis
    by (simp add: ex_job_fields)
qed

text \<open>
  Claim C4 as stated has a failed page counted in \<open>processed_vdps\<close> like a successful
  one. In the example run three pages are discovered and one fails: the counter ends at
  2, and the step of the failed page leaves it where it was.
\<close>

theorem failed_page_counted_counterexample:
  "length (run_discovered ex_env ex_job ()) = 3
   \<and> length (errors (fst (run_analysis ex_env ex_job () Map.empty))) = 1
   \<and> processed_vdps (progress (fst (run_analysis ex_env ex_job () Map.empty))) = 2
   \<and> fst (page_result ex_env ''sk-test'' (ex_page ''2'') ()) = Inl ex_failure_2
   \<and> processed_vdps (progress (fst (process_vdp ex_env ''Gunn Nissan'' 3 2 (ex_page ''2'') (ex_job, ()))))
       = processed_vdps (progress ex_job)
   \<and> processed_vdps (progress (fst (process_vdp ex_env ''Gunn Nissan'' 3 2 (ex_page ''2'') (ex_job, ()))))
       \<noteq> processed_vdps (progress ex_job) + 1"
proof -
  have p2: "page_result ex_env (openai_api_key ex_job) (ex_page ''2'') () = (Inl ex_failure_2, ())"
    by (simp only: ex_job_fields ex_page_results)
  show ?thesis
    by (simp add: ex_discovered ex_run ex_final_job_def ex_page_results
          process_vdp_failure [OF p2] add_error_def)
qed

text \<open>
  Claim C9 asks that a run which reaches the export with no results leaves an empty
  export file and a completed job whose download delivers that file. When the client is
  built and the export does not fail, \<open>generate_csv\<close> writes the file with empty content
  (no header, no rows) under the working directory and returns the relative path, and
  the job is completed with that path. The download looks for the path from
  \<open>app.root_path\<close>: it delivers the empty file when that is the same place, and it fails
  with a missing file when nothing is there, as happens when the process was started in
  another directory.
\<close>

theorem empty_export_download:
  "client_init env (openai_api_key j) = None \<Longrightarrow>
   export_io env (''exports/'' @ job_id j @ ''.csv'') = None \<Longrightarrow>
   run_analysis env j w fs = (j', w', fs') \<Longrightarrow>
   results j' = [] \<Longrightarrow>
   reg jid = Some j' \<Longrightarrow>
   generate_csv env (job_id j) [] fs
     = (Inr (''exports/'' @ job_id j @ ''.csv''),
        fs(resolve (cwd env) (''exports/'' @ job_id j @ ''.csv'') \<mapsto> []))
   \<and> completed j' \<and> status j' = ''completed''
   \<and> csv_path j' = Some (''exports/'' @ job_id j @ ''.csv'')
   \<and> fs' (resolve (cwd env) (''exports/'' @ job_id j @ ''.csv'')) = Some []
   \<and> (resolve (root_path env) (''exports/'' @ job_id j @ ''.csv'')
          = resolve (cwd env) (''exports/'' @ job_id j @ ''.csv'') \<longrightarrow>
        download_csv env reg jid fs' stamp
          = Dl_File (''nissan_pricing_analysis_'' @ stamp @ ''.csv'') [])
   \<and> (fs' (resolve (root_path env) (''exports/'' @ job_id j @ ''.csv'')) = None \<longrightarrow>
        download_csv env reg jid fs' stamp = Dl_File_Missing)"
proof -
  assume init: "client_init env (openai_api_key j) = None"
    and disk: "export_io env (''exports/'' @ job_id j @ ''.csv'') = None"
    and empty: "results j' = []" and reg: "reg jid = Some j'"
  assume "run_analysis env j w fs = (j', w', fs')"
  then show ?thesis
  proof (cases rule: run_analysis_cases)
    case (init_failed e)
    with init show ?thesis by simp
  next
    case (export_failed j1 e)
    with disk show ?thesis by simp
  next
    case (exported j1)
    with empty have "results j1 = []" by simp
    with exported disk reg show ?thesis
      by (simp add: generate_csv_def download_csv_def Let_def)
  qed
qed

text \<open>
  The theorem at the example job in the world where no page can be fetched: once with
  the process started in the directory of app.py, once with the process started one
  directory above.
\<close>

theorem empty_export_download_witness:
  "results (fst (run_analysis ex_env_no_pages ex_job () Map.empty)) = []
   \<and> completed (fst (run_analysis ex_env_no_pages ex_job () Map.empty))
   \<and> csv_path (fst (run_analysis ex_env_no_pages ex_job () Map.empty)) = Some ''exports/job-1.csv''
   \<and> snd (snd (run_analysis ex_env_no_pages ex_job () Map.empty)) ''/srv/app/exports/job-1.csv''
       = Some []
   \<and> download_csv ex_env_no_pages
        [''job-1'' \<mapsto> fst (run_analysis ex_env_no_pages ex_job () Map.empty)] ''job-1''
        (snd (snd (run_analysis ex_env_no_pages ex_job () Map.empty))) ''20250101_120000''
       = Dl_File ''nissan_pricing_analysis_20250101_120000.csv'' []
   \<and> results (fst (run_analysis ex_env_elsewhere ex_job () Map.empty)) = []
   \<and> completed (fst (run_analysis ex_env_elsewhere ex_job () Map.empty))
   \<and> csv_path (fst (run_analysis ex_env_elsewhere ex_job () Map.empty)) = Some ''exports/job-1.csv''
   \<and> snd (snd (run_analysis ex_env_elsewhere ex_job () Map.empty)) ''/srv/exports/job-1.csv''
       = Some []
   \<and> snd (snd (run_analysis ex_env_elsewhere ex_job () Map.empty)) ''/srv/app/exports/job-1.csv''
       = None
   \<and> download_csv ex_env_elsewhere
        [''job-1'' \<mapsto> fst (run_analysis ex_env_elsewhere ex_job () Map.empty)] ''job-1''
        (snd (snd (run_analysis ex_env_elsewhere ex_job () Map.empty))) ''20250101_120000''
       = Dl_File_Missing"
proof -
  obtain j' w' fs' where run: "run_analysis ex_env_no_pages ex_job () Map.empty = (j', w', fs')"
    by (cases "run_analysis ex_env_no_pages ex_job () Map.empty")
  with ex_no_pages_results have empty: "results j' = []" by simp
  have init: "client_init ex_env_no_pages (openai_api_key ex_job) = None"
    and disk: "export_io ex_env_no_pages (''exports/'' @ job_id ex_job @ ''.csv'') = None"
    by (simp_all add: ex_env_local)
  note here = empty_export_download [of ex_env_no_pages ex_job "()" Map.empty j' w' fs'
      "[''job-1'' \<mapsto> j']" "''job-1''" "''20250101_120000''"]
  from here init disk run empty
  have first: "completed j'" "csv_path j' = Some ''exports/job-1.csv''"
    "fs' ''/srv/app/exports/job-1.csv'' = Some []"
    "download_csv ex_env_no_pages [''job-1'' \<mapsto> j'] ''job-1'' fs' ''20250101_120000''
       = Dl_File ''nissan_pricing_analysis_20250101_120000.csv'' []"
    by (simp_all add: ex_job_fields ex_env_local resolve_def)
  obtain k' v' gs' where run2: "run_analysis ex_env_elsewhere ex_job () Map.empty = (k', v', gs')"
    by (cases "run_analysis ex_env_elsewhere ex_job () Map.empty")
  with ex_no_pages_elsewhere have empty2: "results k' = []" by simp
  have init2: "client_init ex_env_elsewhere (openai_api_key ex_job) = None"
    and disk2: "export_io ex_env_elsewhere (''exports/'' @ job_id ex_job @ ''.csv'') = None"
    by (simp_all add: ex_env_local)
  from run2 have absent: "gs' ''/srv/app/exports/job-1.csv'' = None"
  proof (cases rule: run_analysis_cases)
    case (exported j1)
    then show ?thesis
      by (simp add: generate_csv_def Let_def resolve_def ex_env_local ex_job_fields)
  qed (simp_all add: ex_env_local)
  note there = empty_export_download [of ex_env_elsewhere ex_job "()" Map.empty k' v' gs'
      "[''job-1'' \<mapsto> k']" "''job-1''" "''20250101_120000''"]
  from there init2 disk2 run2 empty2 absent
  have second: "completed k'" "csv_path k' = Some ''exports/job-1.csv''"
    "gs' ''/srv/exports/job-1.csv'' = Some []"
    "download_csv ex_env_elsewhere [''job-1'' \<mapsto> k'] ''job-1'' gs' ''20250101_120000''
       = Dl_File_Missing"
    by (simp_all add: ex_job_fields ex_env_local resolve_def)
  from run empty first run2 empty2 second absent show ?thesis by simp
qed

end
